theory Spec2Isabelle
  imports Main
begin

section \<open>Data model\<close>

text \<open>
  The Cognito sign-in entry points \<open>signInWithUserPassword\<close> and
  \<open>signInWithCustomSRPAuth\<close>, and \<open>resetPassword\<close>, as state-passing functions.
  A JavaScript value that may be \<open>undefined\<close> is an \<open>option\<close>; a thrown error or a
  rejected promise is the \<open>Inl\<close> of a sum; an awaited call runs to its end before the
  next statement, so the asynchronous functions are sequential state transformers.
\<close>

type_synonym clientMetadata = "(string \<times> string) list"

type_synonym challengeParameters = "(string \<times> string) list"

text \<open>\<open>AuthValidationErrorCode\<close>: the two members the sign-in entry points use.\<close>

datatype AuthValidationErrorCode = EmptySignInUsername | EmptySignInPassword

text \<open>
  What can be thrown. \<open>AuthTokenConfigException\<close> is the error of
  \<open>assertTokenProviderConfig\<close>; \<open>ValidationError\<close> the error of
  \<open>assertValidationError\<close>; \<open>ServiceError name message\<close> an error object a
  collaborator rejects with, carrying its \<open>name\<close> and \<open>message\<close> (the named
  exceptions of the remote service have this form); \<open>SignInProtocolError\<close> what
  \<open>getSignInResult\<close> reports for a challenge it has no next step for.
\<close>

datatype error =
    AuthTokenConfigException
  | ValidationError AuthValidationErrorCode
  | ServiceError string string
  | SignInProtocolError "string option"

record cognitoConfig =
  userPoolId :: string
  userPoolClientId :: string

record cognitoAuthSignInDetails =
  loginId :: string
  authFlowType :: string

record signInOptions =
  clientMetadata :: "clientMetadata option"

record signInInput =
  username :: string
  password :: string
  options :: "signInOptions option"

record newDeviceMetadataType =
  DeviceKey :: "string option"
  DeviceGroupKey :: "string option"

record authenticationResultType =
  AccessToken :: "string option"
  IdToken :: "string option"
  RefreshToken :: "string option"
  NewDeviceMetadata :: "newDeviceMetadataType option"

text \<open>The response of \<open>initiateAuth\<close> and \<open>respondToAuthChallenge\<close>.\<close>

record authResponse =
  ChallengeName :: "string option"
  ChallengeParameters :: "challengeParameters option"
  Session :: "string option"
  AuthenticationResult :: "authenticationResultType option"

text \<open>The argument of \<open>setActiveSignInState\<close>: one in-flight attempt.\<close>

record signInState =
  signInSession :: "string option"
  stateUsername :: string
  challengeName :: "string option"
  signInDetails :: cognitoAuthSignInDetails

record deviceMetadata =
  deviceKey :: string
  deviceGroupKey :: string
  randomPassword :: string

text \<open>
  The argument of \<open>cacheCognitoTokens\<close>: the spread \<open>AuthenticationResult\<close> with
  \<open>username\<close>, the derived \<open>NewDeviceMetadata\<close> (which replaces the spread one) and
  \<open>signInDetails\<close>.
\<close>

record cacheTokensInput =
  cachedAccessToken :: "string option"
  cachedIdToken :: "string option"
  cachedRefreshToken :: "string option"
  cachedUsername :: string
  cachedNewDeviceMetadata :: "deviceMetadata option"
  cachedSignInDetails :: cognitoAuthSignInDetails

record authUser =
  currentUsername :: string
  currentUserId :: string

record authNextSignInStep =
  signInStep :: string
  exposedParameters :: challengeParameters

record signInOutput =
  isSignedIn :: bool
  nextStep :: authNextSignInStep

subsection \<open>resetPassword\<close>

record resetPasswordServiceOptions =
  serviceClientMetadata :: "clientMetadata option"

record resetPasswordOptions =
  serviceOptions :: "resetPasswordServiceOptions option"

record resetPasswordRequest =
  requestUsername :: string
  requestOptions :: "resetPasswordOptions option"

record resetPasswordClientInput =
  Username :: string
  ClientMetadata :: "clientMetadata option"

record codeDeliveryDetailsType =
  DeliveryMedium :: "string option"
  Destination :: "string option"
  AttributeName :: "string option"

record forgotPasswordCommandOutput =
  CodeDeliveryDetails :: "codeDeliveryDetailsType option"

text \<open>
  \<open>AuthCodeDeliveryDetails\<close>. The source fills the fields with casts
  (\<open>as DeliveryMedium\<close>, \<open>as string\<close>), which check nothing at run time, so each
  field holds what the service sent or \<open>undefined\<close>.
\<close>

record authCodeDeliveryDetails =
  destination :: "string option"
  deliveryMedium :: "string option"
  attributeName :: "string option"

record resetPasswordNextStep =
  resetPasswordStep :: string
  codeDeliveryDetails :: authCodeDeliveryDetails

record resetPasswordResult =
  isPasswordReset :: bool
  resetNextStep :: resetPasswordNextStep

definition CONFIRM_RESET_PASSWORD_WITH_CODE :: string where
  "CONFIRM_RESET_PASSWORD_WITH_CODE = ''CONFIRM_RESET_PASSWORD_WITH_CODE''"

section \<open>The world the entry points run in\<close>

text \<open>
  Every call of a collaborator that a caller can observe is appended to a trace:
  an invocation of the request function of a flow (the network call of the initial
  request), a clearing of the device metadata, a token cache handoff, a Hub
  notification, a call of the reset-password client.
\<close>

datatype event =
    AuthFlowInvoked
  | DeviceMetadataCleared string
  | TokensCached cacheTokensInput
  | HubDispatched string string authUser
  | ResetPasswordClientCalled resetPasswordClientInput

text \<open>
  \<open>signInStore\<close> is the Active Sign-In State (\<open>None\<close> when empty), \<open>authConfig\<close> is
  \<open>Amplify.getConfig().Auth?.Cognito\<close>, \<open>configClientMetadata\<close> is
  \<open>Amplify.config.clientMetadata\<close>, and \<open>ext\<close> is the state of the remote service,
  the token orchestrator and the token storage, which only the collaborators read and
  write.
\<close>

record 'x world =
  signInStore :: "signInState option"
  authConfig :: "cognitoConfig option"
  configClientMetadata :: "clientMetadata option"
  trace :: "event list"
  ext :: 'x

text \<open>
  The collaborators whose source is not available, as parameters. The two request
  functions take \<open>username\<close>, \<open>password\<close>, \<open>clientMetadata\<close> and the configuration,
  and resolve with a response or reject with an error; so does the reset-password
  client. The three calls awaited on the success path, \<open>getNewDeviceMetatada\<close>, the
  token cache handoff (whose work is \<open>persistTokens\<close>) and \<open>getCurrentUser\<close>, may
  reject as well: each returns an error or its value. \<open>challengeNextStep\<close> is the
  static challenge-to-next-step mapping (the tag and the exposed parameter keys of each
  supported challenge) and \<open>recoverableError\<close> the closed set of remote error names
  that stand for a continuation.
\<close>

record 'x env =
  validTokenProviderConfig :: "cognitoConfig \<Rightarrow> bool"
  handleUserPasswordAuthFlow ::
    "string \<Rightarrow> string \<Rightarrow> clientMetadata option \<Rightarrow> cognitoConfig \<Rightarrow> 'x \<Rightarrow> (error + authResponse) \<times> 'x"
  handleCustomSRPAuthFlow ::
    "string \<Rightarrow> string \<Rightarrow> clientMetadata option \<Rightarrow> cognitoConfig \<Rightarrow> 'x \<Rightarrow> (error + authResponse) \<times> 'x"
  clearDeviceMetadata :: "string \<Rightarrow> 'x \<Rightarrow> 'x"
  getActiveSignInUsername :: "string \<Rightarrow> signInState option \<Rightarrow> 'x \<Rightarrow> string"
  getNewDeviceMetatada ::
    "string \<Rightarrow> newDeviceMetadataType option \<Rightarrow> string option \<Rightarrow> 'x \<Rightarrow>
     (error + deviceMetadata option) \<times> 'x"
  persistTokens :: "cacheTokensInput \<Rightarrow> 'x \<Rightarrow> (error + unit) \<times> 'x"
  getCurrentUser :: "'x \<Rightarrow> (error + authUser) \<times> 'x"
  challengeNextStep :: "string \<Rightarrow> (string \<times> string list) option"
  recoverableError :: "string \<Rightarrow> signInOutput option"
  assertServiceError :: "error \<Rightarrow> error option"
  resetPasswordClient ::
    "resetPasswordClientInput \<Rightarrow> 'x \<Rightarrow> (error + forgotPasswordCommandOutput) \<times> 'x"

section \<open>Helpers of the sign-in entry points\<close>

text \<open>
  Modelled from the spec: \<open>setActiveSignInState\<close> and \<open>cleanActiveSignInState\<close>
  of \<open>utils/signInStore\<close>, whose source is not available. The store is a single
  slot holding the session, the username and the challenge of the one attempt under
  way; setting writes the whole record, cleaning empties the slot.
\<close>

definition setActiveSignInState :: "signInState \<Rightarrow> 'x world \<Rightarrow> 'x world" where
  "setActiveSignInState s w = w\<lparr>signInStore := Some s\<rparr>"

definition cleanActiveSignInState :: "'x world \<Rightarrow> 'x world" where
  "cleanActiveSignInState w = w\<lparr>signInStore := None\<rparr>"

text \<open>
  \<open>assertTokenProviderConfig\<close> of the core library: the configuration has to be
  present and valid, and is a \<open>cognitoConfig\<close> from then on; otherwise
  \<open>AuthTokenConfigException\<close> is thrown.
\<close>

definition assertTokenProviderConfig :: "'x env \<Rightarrow> cognitoConfig option \<Rightarrow> error + cognitoConfig" where
  "assertTokenProviderConfig env cfg =
     (case cfg of
        None \<Rightarrow> Inl AuthTokenConfigException
      | Some c \<Rightarrow> if validTokenProviderConfig env c then Inr c else Inl AuthTokenConfigException)"

text \<open>
  Modelled from the spec: \<open>assertValidationError\<close> of \<open>errors/utils\<close>, whose
  source is not available. A false assertion fails with the validation error of
  the given code; \<open>Some e\<close> is the error thrown.
\<close>

definition assertValidationError :: "bool \<Rightarrow> AuthValidationErrorCode \<Rightarrow> error option" where
  "assertValidationError assertion code = (if assertion then None else Some (ValidationError code))"

text \<open>
  \<open>error.name\<close>, for the errors whose name can be one of the remote service's
  catalogue.
\<close>

fun errorName :: "error \<Rightarrow> string option" where
  "errorName (ServiceError n m) = Some n"
| "errorName AuthTokenConfigException = None"
| "errorName (ValidationError c) = None"
| "errorName (SignInProtocolError c) = None"

text \<open>One invocation of a request function: it runs on the external state.\<close>

definition invoke :: "('x \<Rightarrow> (error + 'a) \<times> 'x) \<Rightarrow> 'x world \<Rightarrow> (error + 'a) \<times> 'x world" where
  "invoke func w =
     (case func (ext w) of
        (r, x) \<Rightarrow> (r, w\<lparr>trace := trace w @ [AuthFlowInvoked], ext := x\<rparr>))"

text \<open>\<open>tokenOrchestrator.clearDeviceMetadata(username)\<close>.\<close>

definition clearDeviceMetadataFor :: "'x env \<Rightarrow> string \<Rightarrow> 'x world \<Rightarrow> 'x world" where
  "clearDeviceMetadataFor env uname w =
     w\<lparr>trace := trace w @ [DeviceMetadataCleared uname],
       ext := clearDeviceMetadata env uname (ext w)\<rparr>"

definition isResourceNotFound :: "error \<Rightarrow> bool" where
  "isResourceNotFound e = (errorName e = Some ''ResourceNotFoundException'')"

text \<open>
  Modelled from the spec: \<open>retryOnResourceNotFoundException\<close> of
  \<open>utils/signInHelpers\<close>, whose source is not available (only its call in
  \<open>signInWithUserPassword\<close> is). The function is invoked; if it fails with the
  resource-not-found error name, the device context of the username is cleared and the
  function is invoked once more, whose outcome is the outcome; any other failure
  propagates.
\<close>

definition retryOnResourceNotFoundException ::
  "'x env \<Rightarrow> ('x \<Rightarrow> (error + 'a) \<times> 'x) \<Rightarrow> string \<Rightarrow> 'x world \<Rightarrow> (error + 'a) \<times> 'x world" where
  "retryOnResourceNotFoundException env func uname w =
     (case invoke func w of
        (Inr r, w1) \<Rightarrow> (Inr r, w1)
      | (Inl e, w1) \<Rightarrow>
          if isResourceNotFound e then invoke func (clearDeviceMetadataFor env uname w1)
          else (Inl e, w1))"

text \<open>
  Modelled from the spec: \<open>getSignInResult\<close> of \<open>utils/signInHelpers\<close>, whose
  source is not available. The static mapping \<open>challengeNextStep\<close> gives, for each
  supported challenge, the next-step tag and the keys of the challenge parameters that
  are exposed; a challenge outside the mapping, or no challenge at all, is a reported
  error. The helper is asynchronous: the value below is the outcome of the promise it
  returns, \<open>Inl\<close> for a rejection.
\<close>

definition getSignInResult ::
  "'x env \<Rightarrow> string option \<Rightarrow> challengeParameters option \<Rightarrow> error + signInOutput" where
  "getSignInResult env challenge params =
     (case challenge of
        None \<Rightarrow> Inl (SignInProtocolError None)
      | Some c \<Rightarrow>
          (case challengeNextStep env c of
             None \<Rightarrow> Inl (SignInProtocolError (Some c))
           | Some (step, keys) \<Rightarrow>
               Inr \<lparr>isSignedIn = False,
                    nextStep = \<lparr>signInStep = step,
                      exposedParameters =
                        filter (\<lambda>kv. fst kv \<in> set keys) (case params of None \<Rightarrow> [] | Some ps \<Rightarrow> ps)\<rparr>\<rparr>))"

text \<open>
  Modelled from the spec: \<open>getSignInResultFromError\<close> of \<open>utils/signInHelpers\<close>,
  whose source is not available. A closed set of remote error names
  (\<open>recoverableError\<close>) maps to continuation results; every other error has none.
\<close>

definition getSignInResultFromError :: "'x env \<Rightarrow> string option \<Rightarrow> signInOutput option" where
  "getSignInResultFromError env n = (case n of None \<Rightarrow> None | Some s \<Rightarrow> recoverableError env s)"

text \<open>
  Modelled from the spec: \<open>cacheCognitoTokens\<close> of \<open>tokenProvider/cacheTokens\<close>,
  whose source is not available. The handoff is recorded when it is invoked; it
  persists its argument and returns nothing, or rejects.
\<close>

definition cacheCognitoTokens ::
  "'x env \<Rightarrow> cacheTokensInput \<Rightarrow> 'x world \<Rightarrow> (error + unit) \<times> 'x world" where
  "cacheCognitoTokens env input w =
     (case persistTokens env input (ext w) of
        (r, x) \<Rightarrow> (r, w\<lparr>trace := trace w @ [TokensCached input], ext := x\<rparr>))"

text \<open>\<open>Hub.dispatch(channel, {event, data}, ...)\<close>: fire and forget.\<close>

definition Hub_dispatch :: "string \<Rightarrow> string \<Rightarrow> authUser \<Rightarrow> 'x world \<Rightarrow> 'x world" where
  "Hub_dispatch channel ev user w = w\<lparr>trace := trace w @ [HubDispatched channel ev user]\<rparr>"

text \<open>\<open>options?.clientMetadata\<close> of a sign-in input.\<close>

definition clientMetadataOf :: "signInInput \<Rightarrow> clientMetadata option" where
  "clientMetadataOf input = (case options input of None \<Rightarrow> None | Some opts \<Rightarrow> clientMetadata opts)"

section \<open>The token handoff of both entry points\<close>

text \<open>
  The argument of \<open>cacheCognitoTokens\<close>, the same object in both entry points (they
  differ in the order of \<open>username\<close> and the spread only).
\<close>

definition tokensToCache ::
  "authenticationResultType \<Rightarrow> string \<Rightarrow> deviceMetadata option \<Rightarrow> cognitoAuthSignInDetails \<Rightarrow>
   cacheTokensInput" where
  "tokensToCache result activeUsername newDevice details =
     \<lparr>cachedAccessToken = AccessToken result,
      cachedIdToken = IdToken result,
      cachedRefreshToken = RefreshToken result,
      cachedUsername = activeUsername,
      cachedNewDeviceMetadata = newDevice,
      cachedSignInDetails = details\<rparr>"

text \<open>
  The block under \<open>if (AuthenticationResult)\<close>, the same statements in both entry
  points: \<open>getNewDeviceMetatada\<close> is awaited, then \<open>cacheCognitoTokens\<close>, the Active
  Sign-In State is cleaned, \<open>getCurrentUser\<close> is awaited, the event is dispatched and the
  \<open>DONE\<close> result returned. A rejection of an awaited call is thrown inside the
  \<open>try\<close> block (\<open>Inl\<close>), and the statements after it do not run.
\<close>

definition cacheTokensAndDispatch ::
  "'x env \<Rightarrow> cognitoConfig \<Rightarrow> string \<Rightarrow> cognitoAuthSignInDetails \<Rightarrow> authenticationResultType \<Rightarrow>
   'x world \<Rightarrow> (error + signInOutput) \<times> 'x world" where
  "cacheTokensAndDispatch env cfg activeUsername details result w2 =
     (case getNewDeviceMetatada env (userPoolId cfg)
             (NewDeviceMetadata result) (AccessToken result) (ext w2) of
        (Inl error, x) \<Rightarrow> (Inl error, w2\<lparr>ext := x\<rparr>)
      | (Inr newDevice, x) \<Rightarrow>
          (case cacheCognitoTokens env (tokensToCache result activeUsername newDevice details)
                  (w2\<lparr>ext := x\<rparr>) of
             (Inl error, w3) \<Rightarrow> (Inl error, w3)
           | (Inr u, w3) \<Rightarrow>
               (let w4 = cleanActiveSignInState w3
                in case getCurrentUser env (ext w4) of
                     (Inl error, x') \<Rightarrow> (Inl error, w4\<lparr>ext := x'\<rparr>)
                   | (Inr user, x') \<Rightarrow>
                       (Inr \<lparr>isSignedIn = True,
                             nextStep = \<lparr>signInStep = ''DONE'', exposedParameters = []\<rparr>\<rparr>,
                        Hub_dispatch ''auth'' ''signedIn'' user (w4\<lparr>ext := x'\<rparr>)))))"

section \<open>signInWithUserPassword\<close>

text \<open>
  The body of the \<open>try\<close> block. \<open>Inl\<close> is an error thrown inside the block, which
  the \<open>catch\<close> block receives: the rejection of the awaited request or of an awaited
  call of the token handoff. \<open>Inr\<close> is what the block returns: the \<open>DONE\<close> result, or
  the promise of \<open>getSignInResult\<close>, which the source returns without awaiting it, so
  that its rejection is the rejection of the call and does not pass through the
  \<open>catch\<close> block.
\<close>

definition signInWithUserPassword_try ::
  "'x env \<Rightarrow> string \<Rightarrow> string \<Rightarrow> clientMetadata option \<Rightarrow> cognitoConfig \<Rightarrow>
   cognitoAuthSignInDetails \<Rightarrow> 'x world \<Rightarrow> (error + (error + signInOutput)) \<times> 'x world" where
  "signInWithUserPassword_try env uname pword metadata cfg details w =
     (case retryOnResourceNotFoundException env
             (handleUserPasswordAuthFlow env uname pword metadata cfg) uname w of
        (Inl error, w1) \<Rightarrow> (Inl error, w1)
      | (Inr response, w1) \<Rightarrow>
          (let activeUsername = getActiveSignInUsername env uname (signInStore w1) (ext w1);
               w2 = setActiveSignInState
                      \<lparr>signInSession = Session response,
                       stateUsername = activeUsername,
                       challengeName = ChallengeName response,
                       signInDetails = details\<rparr> w1
           in case AuthenticationResult response of
                Some result \<Rightarrow>
                  (case cacheTokensAndDispatch env cfg activeUsername details result w2 of
                     (Inl error, w') \<Rightarrow> (Inl error, w')
                   | (Inr out, w') \<Rightarrow> (Inr (Inr out), w'))
              | None \<Rightarrow>
                  (Inr (getSignInResult env (ChallengeName response) (ChallengeParameters response)),
                   w2)))"

definition signInWithUserPassword ::
  "'x env \<Rightarrow> signInInput \<Rightarrow> 'x world \<Rightarrow> (error + signInOutput) \<times> 'x world" where
  "signInWithUserPassword env input w =
     (let uname = username input;
          pword = password input;
          details = \<lparr>loginId = uname, authFlowType = ''USER_PASSWORD_AUTH''\<rparr>
      in case assertTokenProviderConfig env (authConfig w) of
           Inl e \<Rightarrow> (Inl e, w)
         | Inr cfg \<Rightarrow>
             (let metadata = clientMetadataOf input
              in case assertValidationError (uname \<noteq> []) EmptySignInUsername of
                   Some e \<Rightarrow> (Inl e, w)
                 | None \<Rightarrow>
                     (case assertValidationError (pword \<noteq> []) EmptySignInPassword of
                        Some e \<Rightarrow> (Inl e, w)
                      | None \<Rightarrow>
                          (case signInWithUserPassword_try env uname pword metadata cfg details w of
                             (Inr returned, w') \<Rightarrow> (returned, w')
                           | (Inl error, w') \<Rightarrow>
                               (let w'' = cleanActiveSignInState w'
                                in case assertServiceError env error of
                                     Some e \<Rightarrow> (Inl e, w'')
                                   | None \<Rightarrow>
                                       (case getSignInResultFromError env (errorName error) of
                                          Some result \<Rightarrow> (Inr result, w'')
                                        | None \<Rightarrow> (Inl error, w'')))))))"

section \<open>signInWithCustomSRPAuth\<close>

text \<open>
  The same shape, except that \<open>handleCustomSRPAuthFlow\<close> is awaited directly, not
  through the retry wrapper.
\<close>

definition signInWithCustomSRPAuth_try ::
  "'x env \<Rightarrow> string \<Rightarrow> string \<Rightarrow> clientMetadata option \<Rightarrow> cognitoConfig \<Rightarrow>
   cognitoAuthSignInDetails \<Rightarrow> 'x world \<Rightarrow> (error + (error + signInOutput)) \<times> 'x world" where
  "signInWithCustomSRPAuth_try env uname pword metadata cfg details w =
     (case invoke (handleCustomSRPAuthFlow env uname pword metadata cfg) w of
        (Inl error, w1) \<Rightarrow> (Inl error, w1)
      | (Inr response, w1) \<Rightarrow>
          (let activeUsername = getActiveSignInUsername env uname (signInStore w1) (ext w1);
               w2 = setActiveSignInState
                      \<lparr>signInSession = Session response,
                       stateUsername = activeUsername,
                       challengeName = ChallengeName response,
                       signInDetails = details\<rparr> w1
           in case AuthenticationResult response of
                Some result \<Rightarrow>
                  (case cacheTokensAndDispatch env cfg activeUsername details result w2 of
                     (Inl error, w') \<Rightarrow> (Inl error, w')
                   | (Inr out, w') \<Rightarrow> (Inr (Inr out), w'))
              | None \<Rightarrow>
                  (Inr (getSignInResult env (ChallengeName response) (ChallengeParameters response)),
                   w2)))"

definition signInWithCustomSRPAuth ::
  "'x env \<Rightarrow> signInInput \<Rightarrow> 'x world \<Rightarrow> (error + signInOutput) \<times> 'x world" where
  "signInWithCustomSRPAuth env input w =
     (let uname = username input;
          pword = password input;
          details = \<lparr>loginId = uname, authFlowType = ''CUSTOM_WITH_SRP''\<rparr>
      in case assertTokenProviderConfig env (authConfig w) of
           Inl e \<Rightarrow> (Inl e, w)
         | Inr cfg \<Rightarrow>
             (let metadata = clientMetadataOf input
              in case assertValidationError (uname \<noteq> []) EmptySignInUsername of
                   Some e \<Rightarrow> (Inl e, w)
                 | None \<Rightarrow>
                     (case assertValidationError (pword \<noteq> []) EmptySignInPassword of
                        Some e \<Rightarrow> (Inl e, w)
                      | None \<Rightarrow>
                          (case signInWithCustomSRPAuth_try env uname pword metadata cfg details w of
                             (Inr returned, w') \<Rightarrow> (returned, w')
                           | (Inl error, w') \<Rightarrow>
                               (let w'' = cleanActiveSignInState w'
                                in case assertServiceError env error of
                                     Some e \<Rightarrow> (Inl e, w'')
                                   | None \<Rightarrow>
                                       (case getSignInResultFromError env (errorName error) of
                                          Some result \<Rightarrow> (Inr result, w'')
                                        | None \<Rightarrow> (Inl error, w'')))))))"

section \<open>resetPassword\<close>

text \<open>
  The branch on an empty username is empty in the source (a TODO), so both branches
  continue alike. \<open>??\<close> takes the configured client metadata when the request has none.
\<close>

definition resetPassword ::
  "'x env \<Rightarrow> resetPasswordRequest \<Rightarrow> 'x world \<Rightarrow> (error + resetPasswordResult) \<times> 'x world" where
  "resetPassword env request w =
     (let uname = requestUsername request;
          w0 = (if uname = [] then w else w);
          requestMetadata =
            (case requestOptions request of
               None \<Rightarrow> None
             | Some opts \<Rightarrow>
                 (case serviceOptions opts of None \<Rightarrow> None | Some so \<Rightarrow> serviceClientMetadata so));
          input = \<lparr>Username = uname,
                   ClientMetadata =
                     (case requestMetadata of Some m \<Rightarrow> Some m | None \<Rightarrow> configClientMetadata w0)\<rparr>
      in case resetPasswordClient env input (ext w0) of
           (r, x) \<Rightarrow>
             (let w1 = w0\<lparr>trace := trace w0 @ [ResetPasswordClientCalled input], ext := x\<rparr>
              in case r of
                   Inl e \<Rightarrow> (Inl e, w1)
                 | Inr res \<Rightarrow>
                     (let details = CodeDeliveryDetails res
                      in (Inr \<lparr>isPasswordReset = False,
                               resetNextStep =
                                 \<lparr>resetPasswordStep = CONFIRM_RESET_PASSWORD_WITH_CODE,
                                  codeDeliveryDetails =
                                    \<lparr>destination = (case details of None \<Rightarrow> None | Some d \<Rightarrow> Destination d),
                                     deliveryMedium = (case details of None \<Rightarrow> None | Some d \<Rightarrow> DeliveryMedium d),
                                     attributeName = (case details of None \<Rightarrow> None | Some d \<Rightarrow> AttributeName d)\<rparr>\<rparr>\<rparr>,
                          w1))))"

section \<open>Observations on a trace\<close>

text \<open>The arguments of the token cache handoffs of a trace, in order.\<close>

fun cacheHandoffs :: "event list \<Rightarrow> cacheTokensInput list" where
  "cacheHandoffs [] = []"
| "cacheHandoffs (TokensCached c # es) = c # cacheHandoffs es"
| "cacheHandoffs (e # es) = cacheHandoffs es"

text \<open>The number of invocations of a request function in a trace.\<close>

fun invocations :: "event list \<Rightarrow> nat" where
  "invocations [] = 0"
| "invocations (AuthFlowInvoked # es) = Suc (invocations es)"
| "invocations (e # es) = invocations es"

section \<open>A scripted service\<close>

text \<open>
  A small service in the manner of the mocks of the test-suite, used to run the entry
  points on concrete inputs. Its external state is one flag: whether a stale device
  record is held for the user. \<open>alice\<close> gets tokens; \<open>bob\<close> gets the \<open>SMS_MFA\<close>
  challenge; \<open>carol\<close> gets tokens once the stale device record is gone; \<open>dave\<close> has
  to reset the password; \<open>erin\<close> gets a challenge outside the mapping; \<open>frank\<close>
  gets such a challenge together with tokens; \<open>gina\<close> gets tokens without an access
  token, which the token cache handoff rejects; anyone else is not authorized.
\<close>

definition mockTokens :: authenticationResultType where
  "mockTokens =
     \<lparr>AccessToken = Some ''access'', IdToken = Some ''id'', RefreshToken = Some ''refresh'',
      NewDeviceMetadata = None\<rparr>"

definition mockSuccess :: authResponse where
  "mockSuccess =
     \<lparr>ChallengeName = None, ChallengeParameters = None, Session = None,
      AuthenticationResult = Some mockTokens\<rparr>"

definition mockChallenge :: "string \<Rightarrow> authResponse" where
  "mockChallenge c =
     \<lparr>ChallengeName = Some c,
      ChallengeParameters = Some [(''CODE_DELIVERY_DESTINATION'', ''+*******1234''), (''SECRET'', ''s'')],
      Session = Some ''session-1'', AuthenticationResult = None\<rparr>"

definition mockFlow ::
  "string \<Rightarrow> string \<Rightarrow> clientMetadata option \<Rightarrow> cognitoConfig \<Rightarrow> bool \<Rightarrow> (error + authResponse) \<times> bool" where
  "mockFlow uname pword metadata cfg stale =
     (if uname = ''alice'' then (Inr mockSuccess, stale)
      else if uname = ''bob'' then (Inr (mockChallenge ''SMS_MFA''), stale)
      else if uname = ''carol'' then
        (if stale then (Inl (ServiceError ''ResourceNotFoundException'' ''Device does not exist.''), stale)
         else (Inr mockSuccess, stale))
      else if uname = ''dave'' then (Inl (ServiceError ''PasswordResetRequiredException'' ''reset''), stale)
      else if uname = ''erin'' then (Inr (mockChallenge ''UNSUPPORTED''), stale)
      else if uname = ''frank'' then
        (Inr ((mockChallenge ''UNSUPPORTED'')\<lparr>AuthenticationResult := Some mockTokens\<rparr>), stale)
      else if uname = ''gina'' then
        (Inr (mockSuccess\<lparr>AuthenticationResult := Some (mockTokens\<lparr>AccessToken := None\<rparr>)\<rparr>), stale)
      else (Inl (ServiceError ''NotAuthorizedException'' ''Incorrect username or password.''), stale))"

definition mockEnv :: "bool env" where
  "mockEnv =
     \<lparr>validTokenProviderConfig = (\<lambda>c. userPoolId c \<noteq> [] \<and> userPoolClientId c \<noteq> []),
      handleUserPasswordAuthFlow = mockFlow,
      handleCustomSRPAuthFlow = mockFlow,
      clearDeviceMetadata = (\<lambda>u x. False),
      getActiveSignInUsername = (\<lambda>u s x. u),
      getNewDeviceMetatada = (\<lambda>pool device token x. (Inr None, x)),
      persistTokens =
        (\<lambda>input x. if cachedAccessToken input = None
                   then (Inl (ServiceError ''InvalidTokens'' ''Invalid tokens''), x)
                   else (Inr (), x)),
      getCurrentUser = (\<lambda>x. (Inr \<lparr>currentUsername = ''user'', currentUserId = ''1''\<rparr>, x)),
      challengeNextStep =
        (\<lambda>c. if c = ''SMS_MFA''
             then Some (''CONFIRM_SIGN_IN_WITH_SMS_CODE'', [''CODE_DELIVERY_DESTINATION''])
             else None),
      recoverableError =
        (\<lambda>n. if n = ''PasswordResetRequiredException''
             then Some \<lparr>isSignedIn = False,
                        nextStep = \<lparr>signInStep = ''RESET_PASSWORD'', exposedParameters = []\<rparr>\<rparr>
             else None),
      assertServiceError = (\<lambda>e. None),
      resetPasswordClient =
        (\<lambda>input x.
           (Inr \<lparr>CodeDeliveryDetails =
                   Some \<lparr>DeliveryMedium = Some ''EMAIL'', Destination = Some ''a***@example.com'',
                         AttributeName = Some ''email''\<rparr>\<rparr>, x))\<rparr>"

definition mockConfig :: cognitoConfig where
  "mockConfig = \<lparr>userPoolId = ''us-east-1_pool'', userPoolClientId = ''client''\<rparr>"

definition mockWorld :: "bool world" where
  "mockWorld =
     \<lparr>signInStore = None, authConfig = Some mockConfig, configClientMetadata = None,
      trace = [], ext = True\<rparr>"

definition mockInput :: "string \<Rightarrow> string \<Rightarrow> signInInput" where
  "mockInput uname pword = \<lparr>username = uname, password = pword, options = None\<rparr>"

definition badConfigWorld :: "bool world" where
  "badConfigWorld = mockWorld\<lparr>authConfig := Some \<lparr>userPoolId = [], userPoolClientId = ''client''\<rparr>\<rparr>"

definition challengedWorld :: "bool world" where
  "challengedWorld = snd (signInWithUserPassword mockEnv (mockInput ''bob'' ''Passw0rd!'') mockWorld)"

definition mockDelivery :: forgotPasswordCommandOutput where
  "mockDelivery =
     \<lparr>CodeDeliveryDetails =
        Some \<lparr>DeliveryMedium = Some ''EMAIL'', Destination = Some ''a***@example.com'',
              AttributeName = Some ''email''\<rparr>\<rparr>"

section \<open>Frame lemmas\<close>

lemma cacheHandoffs_append: "cacheHandoffs (xs @ ys) = cacheHandoffs xs @ cacheHandoffs ys"
  by (induction xs rule: cacheHandoffs.induct) simp_all

lemma invocations_append: "invocations (xs @ ys) = invocations xs + invocations ys"
  by (induction xs rule: invocations.induct) simp_all

lemma retry_frame:
  assumes "retryOnResourceNotFoundException env func u w = (r, w1)"
  shows "signInStore w1 = signInStore w" and "authConfig w1 = authConfig w"
    and "cacheHandoffs (trace w1) = cacheHandoffs (trace w)"
  using assms
  by (auto simp: retryOnResourceNotFoundException_def invoke_def clearDeviceMetadataFor_def cacheHandoffs_append
      split: prod.splits sum.splits if_splits)

lemma invoke_frame:
  assumes "invoke func w = (r, w1)"
  shows "signInStore w1 = signInStore w" and "authConfig w1 = authConfig w"
    and "cacheHandoffs (trace w1) = cacheHandoffs (trace w)"
  using assms
  by (auto simp: invoke_def cacheHandoffs_append split: prod.splits)

section \<open>Terminal success\<close>

lemma cacheTokensAndDispatch_returns:
  assumes "cacheTokensAndDispatch env cfg a d result w2 = (Inr out, w')"
  shows "out = \<lparr>isSignedIn = True, nextStep = \<lparr>signInStep = ''DONE'', exposedParameters = []\<rparr>\<rparr>"
    and "signInStore w' = None"
  using assms
  by (auto simp: cacheTokensAndDispatch_def cacheCognitoTokens_def cleanActiveSignInState_def
      Hub_dispatch_def Let_def split: prod.splits sum.splits)

lemma cacheTokensAndDispatch_handoff:
  assumes "getNewDeviceMetatada env (userPoolId cfg) (NewDeviceMetadata result) (AccessToken result)
      (ext w2) = (Inr nd, x2)"
  shows "cacheHandoffs (trace (snd (cacheTokensAndDispatch env cfg a d result w2))) =
     cacheHandoffs (trace w2) @ [tokensToCache result a nd d]"
  using assms
  by (auto simp: cacheTokensAndDispatch_def cacheCognitoTokens_def cleanActiveSignInState_def
      Hub_dispatch_def Let_def cacheHandoffs_append split: prod.splits sum.splits)

lemma cacheTokensAndDispatch_done:
  assumes "getNewDeviceMetatada env (userPoolId cfg) (NewDeviceMetadata result) (AccessToken result)
      (ext w2) = (Inr nd, x2)"
    and "persistTokens env (tokensToCache result a nd d) x2 = (Inr u, x3)"
    and "getCurrentUser env x3 = (Inr user, x4)"
  shows "fst (cacheTokensAndDispatch env cfg a d result w2) =
     Inr \<lparr>isSignedIn = True, nextStep = \<lparr>signInStep = ''DONE'', exposedParameters = []\<rparr>\<rparr>"
  using assms
  by (simp add: cacheTokensAndDispatch_def cacheCognitoTokens_def cleanActiveSignInState_def Let_def)

lemma catch_store:
  "signInStore (snd (case t of
        (Inr out, w') \<Rightarrow> (Inr out, w')
      | (Inl error, w') \<Rightarrow>
          (case assertServiceError env error of
             Some e \<Rightarrow> (Inl e, cleanActiveSignInState w')
           | None \<Rightarrow>
               (case getSignInResultFromError env (errorName error) of
                  Some r \<Rightarrow> (Inr r, cleanActiveSignInState w')
                | None \<Rightarrow> (Inl error, cleanActiveSignInState w'))))) =
   (case fst t of Inl e \<Rightarrow> None | Inr (out :: signInOutput) \<Rightarrow> signInStore (snd t))"
  by (auto simp: cleanActiveSignInState_def split: prod.splits sum.splits option.splits)

lemma catch_trace:
  "trace (snd (case t of
        (Inr (out :: signInOutput), w') \<Rightarrow> (Inr out, w')
      | (Inl error, w') \<Rightarrow>
          (case assertServiceError env error of
             Some e \<Rightarrow> (Inl e, cleanActiveSignInState w')
           | None \<Rightarrow>
               (case getSignInResultFromError env (errorName error) of
                  Some r \<Rightarrow> (Inr r, cleanActiveSignInState w')
                | None \<Rightarrow> (Inl error, cleanActiveSignInState w'))))) = trace (snd t)"
  by (auto simp: cleanActiveSignInState_def split: prod.splits sum.splits option.splits)

lemma catch_result:
  "fst (case t of
        (Inr (out :: signInOutput), w') \<Rightarrow> (Inr out, w')
      | (Inl error, w') \<Rightarrow>
          (case assertServiceError env error of
             Some e \<Rightarrow> (Inl e, cleanActiveSignInState w')
           | None \<Rightarrow>
               (case getSignInResultFromError env (errorName error) of
                  Some r \<Rightarrow> (Inr r, cleanActiveSignInState w')
                | None \<Rightarrow> (Inl error, cleanActiveSignInState w')))) =
   (case fst t of
      Inr out \<Rightarrow> Inr out
    | Inl error \<Rightarrow>
        (case assertServiceError env error of
           Some e \<Rightarrow> Inl e
         | None \<Rightarrow>
             (case getSignInResultFromError env (errorName error) of
                Some r \<Rightarrow> Inr r
              | None \<Rightarrow> Inl error)))"
  by (auto split: prod.splits sum.splits option.splits)

lemma signInWithUserPassword_valid:
  assumes "assertTokenProviderConfig env (authConfig w) = Inr cfg"
    and "username input \<noteq> []" and "password input \<noteq> []"
  shows "signInWithUserPassword env input w =
     (case signInWithUserPassword_try env (username input) (password input) (clientMetadataOf input) cfg
             \<lparr>loginId = username input, authFlowType = ''USER_PASSWORD_AUTH''\<rparr> w of
        (Inr returned, w') \<Rightarrow> (returned, w')
      | (Inl error, w') \<Rightarrow>
          (case assertServiceError env error of
             Some e \<Rightarrow> (Inl e, cleanActiveSignInState w')
           | None \<Rightarrow>
               (case getSignInResultFromError env (errorName error) of
                  Some result \<Rightarrow> (Inr result, cleanActiveSignInState w')
                | None \<Rightarrow> (Inl error, cleanActiveSignInState w'))))"
  using assms
  by (simp add: signInWithUserPassword_def assertValidationError_def Let_def
      split: prod.splits sum.splits)

lemma signInWithCustomSRPAuth_valid:
  assumes "assertTokenProviderConfig env (authConfig w) = Inr cfg"
    and "username input \<noteq> []" and "password input \<noteq> []"
  shows "signInWithCustomSRPAuth env input w =
     (case signInWithCustomSRPAuth_try env (username input) (password input) (clientMetadataOf input) cfg
             \<lparr>loginId = username input, authFlowType = ''CUSTOM_WITH_SRP''\<rparr> w of
        (Inr returned, w') \<Rightarrow> (returned, w')
      | (Inl error, w') \<Rightarrow>
          (case assertServiceError env error of
             Some e \<Rightarrow> (Inl e, cleanActiveSignInState w')
           | None \<Rightarrow>
               (case getSignInResultFromError env (errorName error) of
                  Some result \<Rightarrow> (Inr result, cleanActiveSignInState w')
                | None \<Rightarrow> (Inl error, cleanActiveSignInState w'))))"
  using assms
  by (simp add: signInWithCustomSRPAuth_def assertValidationError_def Let_def
      split: prod.splits sum.splits)

lemma invoke_eq: "invoke func w = (fst (func (ext w)), w\<lparr>trace := trace w @ [AuthFlowInvoked], ext := snd (func (ext w))\<rparr>)"
  by (simp add: invoke_def split: prod.splits)

lemma signInWithUserPassword_tokens:
  assumes v: "assertTokenProviderConfig env (authConfig w) = Inr cfg" "username input \<noteq> []"
      "password input \<noteq> []"
    and req: "retryOnResourceNotFoundException env
      (handleUserPasswordAuthFlow env (username input) (password input) (clientMetadataOf input) cfg)
      (username input) w = (Inr response, w1)"
    and res: "AuthenticationResult response = Some result"
  shows "signInWithUserPassword env input w =
     (case cacheTokensAndDispatch env cfg
             (getActiveSignInUsername env (username input) (signInStore w) (ext w1))
             \<lparr>loginId = username input, authFlowType = ''USER_PASSWORD_AUTH''\<rparr> result
             (w1\<lparr>signInStore := Some \<lparr>signInSession = Session response,
                stateUsername = getActiveSignInUsername env (username input) (signInStore w) (ext w1),
                challengeName = ChallengeName response,
                signInDetails = \<lparr>loginId = username input, authFlowType = ''USER_PASSWORD_AUTH''\<rparr>\<rparr>\<rparr>) of
        (Inr out, w') \<Rightarrow> (Inr out, w')
      | (Inl error, w') \<Rightarrow>
          (case assertServiceError env error of
             Some e \<Rightarrow> (Inl e, cleanActiveSignInState w')
           | None \<Rightarrow>
               (case getSignInResultFromError env (errorName error) of
                  Some r \<Rightarrow> (Inr r, cleanActiveSignInState w')
                | None \<Rightarrow> (Inl error, cleanActiveSignInState w'))))"
  using retry_frame(1)[OF req]
  by (simp add: signInWithUserPassword_valid [OF v] signInWithUserPassword_try_def req res Let_def
      setActiveSignInState_def split: prod.splits sum.splits)

lemma signInWithCustomSRPAuth_tokens:
  assumes v: "assertTokenProviderConfig env (authConfig w) = Inr cfg" "username input \<noteq> []"
      "password input \<noteq> []"
    and req: "invoke (handleCustomSRPAuthFlow env (username input) (password input)
      (clientMetadataOf input) cfg) w = (Inr response, w1)"
    and res: "AuthenticationResult response = Some result"
  shows "signInWithCustomSRPAuth env input w =
     (case cacheTokensAndDispatch env cfg
             (getActiveSignInUsername env (username input) (signInStore w) (ext w1))
             \<lparr>loginId = username input, authFlowType = ''CUSTOM_WITH_SRP''\<rparr> result
             (w1\<lparr>signInStore := Some \<lparr>signInSession = Session response,
                stateUsername = getActiveSignInUsername env (username input) (signInStore w) (ext w1),
                challengeName = ChallengeName response,
                signInDetails = \<lparr>loginId = username input, authFlowType = ''CUSTOM_WITH_SRP''\<rparr>\<rparr>\<rparr>) of
        (Inr out, w') \<Rightarrow> (Inr out, w')
      | (Inl error, w') \<Rightarrow>
          (case assertServiceError env error of
             Some e \<Rightarrow> (Inl e, cleanActiveSignInState w')
           | None \<Rightarrow>
               (case getSignInResultFromError env (errorName error) of
                  Some r \<Rightarrow> (Inr r, cleanActiveSignInState w')
                | None \<Rightarrow> (Inl error, cleanActiveSignInState w'))))"
  using invoke_frame(1)[OF req]
  by (simp add: signInWithCustomSRPAuth_valid [OF v] signInWithCustomSRPAuth_try_def req res Let_def
      setActiveSignInState_def split: prod.splits sum.splits)

lemma handoff_store_empty:
  "(case fst (cacheTokensAndDispatch env cfg a d result w2) of
      Inl e \<Rightarrow> None
    | Inr out \<Rightarrow> signInStore (snd (cacheTokensAndDispatch env cfg a d result w2))) = None"
proof (cases "cacheTokensAndDispatch env cfg a d result w2")
  case (Pair r w')
  then show ?thesis
    using cacheTokensAndDispatch_returns(2) [of env cfg a d result w2 _ w']
    by (cases r) simp_all
qed


text \<open>
  Claim C1, amended. For a call of \<open>signInWithUserPassword\<close> whose request, through the
  retry wrapper, resolves with a response carrying \<open>AuthenticationResult\<close>, and for a
  call of \<open>signInWithCustomSRPAuth\<close> whose request resolves with such a response: the
  Active Sign-In State is empty when the call ends; when \<open>getNewDeviceMetatada\<close>
  resolves, the call adds exactly one token cache handoff to the trace, and it carries
  the returned tokens; when the handoff and \<open>getCurrentUser\<close> resolve as well, the call
  returns exactly \<open>{isSignedIn: true, nextStep: {signInStep: 'DONE'}}\<close>. (A request is
  only issued by a call that passed the configuration assertion and the two
  validations.)
\<close>

theorem signIn_authentication_result_done:
  "(assertTokenProviderConfig env (authConfig w) = Inr cfg \<and>
    username input \<noteq> [] \<and> password input \<noteq> [] \<and>
    retryOnResourceNotFoundException env
      (handleUserPasswordAuthFlow env (username input) (password input) (clientMetadataOf input) cfg)
      (username input) w = (Inr response, w1) \<and>
    AuthenticationResult response = Some result \<longrightarrow>
      signInStore (snd (signInWithUserPassword env input w)) = None \<and>
      (getNewDeviceMetatada env (userPoolId cfg) (NewDeviceMetadata result) (AccessToken result)
         (ext w1) = (Inr nd, x2) \<longrightarrow>
         cacheHandoffs (trace (snd (signInWithUserPassword env input w))) =
           cacheHandoffs (trace w) @ [tokensToCache result (getActiveSignInUsername env (username input) (signInStore w) (ext w1)) nd \<lparr>loginId = username input, authFlowType = ''USER_PASSWORD_AUTH''\<rparr>] \<and>
         cachedAccessToken (tokensToCache result (getActiveSignInUsername env (username input) (signInStore w) (ext w1)) nd \<lparr>loginId = username input, authFlowType = ''USER_PASSWORD_AUTH''\<rparr>) = AccessToken result \<and>
         cachedIdToken (tokensToCache result (getActiveSignInUsername env (username input) (signInStore w) (ext w1)) nd \<lparr>loginId = username input, authFlowType = ''USER_PASSWORD_AUTH''\<rparr>) = IdToken result \<and>
         cachedRefreshToken (tokensToCache result (getActiveSignInUsername env (username input) (signInStore w) (ext w1)) nd \<lparr>loginId = username input, authFlowType = ''USER_PASSWORD_AUTH''\<rparr>) = RefreshToken result \<and>
         (persistTokens env (tokensToCache result (getActiveSignInUsername env (username input) (signInStore w) (ext w1)) nd \<lparr>loginId = username input, authFlowType = ''USER_PASSWORD_AUTH''\<rparr>) x2 = (Inr (), x3) \<and>
          getCurrentUser env x3 = (Inr user, x4) \<longrightarrow>
            fst (signInWithUserPassword env input w) =
              Inr \<lparr>isSignedIn = True, nextStep = \<lparr>signInStep = ''DONE'', exposedParameters = []\<rparr>\<rparr>))) \<and>
   (assertTokenProviderConfig env (authConfig w) = Inr cfg \<and>
    username input \<noteq> [] \<and> password input \<noteq> [] \<and>
    handleCustomSRPAuthFlow env (username input) (password input) (clientMetadataOf input) cfg (ext w) =
      (Inr response, x1) \<and>
    AuthenticationResult response = Some result \<longrightarrow>
      signInStore (snd (signInWithCustomSRPAuth env input w)) = None \<and>
      (getNewDeviceMetatada env (userPoolId cfg) (NewDeviceMetadata result) (AccessToken result)
         (x1) = (Inr nd, x2) \<longrightarrow>
         cacheHandoffs (trace (snd (signInWithCustomSRPAuth env input w))) =
           cacheHandoffs (trace w) @ [tokensToCache result (getActiveSignInUsername env (username input) (signInStore w) x1) nd \<lparr>loginId = username input, authFlowType = ''CUSTOM_WITH_SRP''\<rparr>] \<and>
         cachedAccessToken (tokensToCache result (getActiveSignInUsername env (username input) (signInStore w) x1) nd \<lparr>loginId = username input, authFlowType = ''CUSTOM_WITH_SRP''\<rparr>) = AccessToken result \<and>
         cachedIdToken (tokensToCache result (getActiveSignInUsername env (username input) (signInStore w) x1) nd \<lparr>loginId = username input, authFlowType = ''CUSTOM_WITH_SRP''\<rparr>) = IdToken result \<and>
         cachedRefreshToken (tokensToCache result (getActiveSignInUsername env (username input) (signInStore w) x1) nd \<lparr>loginId = username input, authFlowType = ''CUSTOM_WITH_SRP''\<rparr>) = RefreshToken result \<and>
         (persistTokens env (tokensToCache result (getActiveSignInUsername env (username input) (signInStore w) x1) nd \<lparr>loginId = username input, authFlowType = ''CUSTOM_WITH_SRP''\<rparr>) x2 = (Inr (), x3) \<and>
          getCurrentUser env x3 = (Inr user, x4) \<longrightarrow>
            fst (signInWithCustomSRPAuth env input w) =
              Inr \<lparr>isSignedIn = True, nextStep = \<lparr>signInStep = ''DONE'', exposedParameters = []\<rparr>\<rparr>)))"
proof (intro conjI impI)
  assume h: "assertTokenProviderConfig env (authConfig w) = Inr cfg \<and>
    username input \<noteq> [] \<and> password input \<noteq> [] \<and>
    retryOnResourceNotFoundException env
      (handleUserPasswordAuthFlow env (username input) (password input) (clientMetadataOf input) cfg)
      (username input) w = (Inr response, w1) \<and>
    AuthenticationResult response = Some result"
  then have v: "assertTokenProviderConfig env (authConfig w) = Inr cfg" "username input \<noteq> []"
    "password input \<noteq> []"
    and req: "retryOnResourceNotFoundException env
      (handleUserPasswordAuthFlow env (username input) (password input) (clientMetadataOf input) cfg)
      (username input) w = (Inr response, w1)"
    and res: "AuthenticationResult response = Some result"
    by simp_all
  note eq = signInWithUserPassword_tokens [OF v req res]
  show "signInStore (snd (signInWithUserPassword env input w)) = None"
    unfolding eq catch_store by (rule handoff_store_empty)
  show "cachedAccessToken (tokensToCache result (getActiveSignInUsername env (username input) (signInStore w) (ext w1)) nd \<lparr>loginId = username input, authFlowType = ''USER_PASSWORD_AUTH''\<rparr>) = AccessToken result"
    and "cachedIdToken (tokensToCache result (getActiveSignInUsername env (username input) (signInStore w) (ext w1)) nd \<lparr>loginId = username input, authFlowType = ''USER_PASSWORD_AUTH''\<rparr>) = IdToken result"
    and "cachedRefreshToken (tokensToCache result (getActiveSignInUsername env (username input) (signInStore w) (ext w1)) nd \<lparr>loginId = username input, authFlowType = ''USER_PASSWORD_AUTH''\<rparr>) = RefreshToken result"
    by (simp_all add: tokensToCache_def)
  assume n: "getNewDeviceMetatada env (userPoolId cfg) (NewDeviceMetadata result) (AccessToken result)
         (ext w1) = (Inr nd, x2)"
  show "cacheHandoffs (trace (snd (signInWithUserPassword env input w))) =
           cacheHandoffs (trace w) @ [tokensToCache result (getActiveSignInUsername env (username input) (signInStore w) (ext w1)) nd \<lparr>loginId = username input, authFlowType = ''USER_PASSWORD_AUTH''\<rparr>]"
    unfolding eq catch_trace
    using retry_frame(3) [OF req] by (simp add: cacheTokensAndDispatch_handoff n)
  assume "persistTokens env (tokensToCache result (getActiveSignInUsername env (username input) (signInStore w) (ext w1)) nd \<lparr>loginId = username input, authFlowType = ''USER_PASSWORD_AUTH''\<rparr>) x2 = (Inr (), x3) \<and>
          getCurrentUser env x3 = (Inr user, x4)"
  then show "fst (signInWithUserPassword env input w) =
      Inr \<lparr>isSignedIn = True, nextStep = \<lparr>signInStep = ''DONE'', exposedParameters = []\<rparr>\<rparr>"
    unfolding eq catch_result
    by (simp add: cacheTokensAndDispatch_done [where ?x2.0 = x2 and ?x3.0 = x3 and ?x4.0 = x4] n)
next
  assume h: "assertTokenProviderConfig env (authConfig w) = Inr cfg \<and>
    username input \<noteq> [] \<and> password input \<noteq> [] \<and>
    handleCustomSRPAuthFlow env (username input) (password input) (clientMetadataOf input) cfg (ext w) =
      (Inr response, x1) \<and>
    AuthenticationResult response = Some result"
  then have v: "assertTokenProviderConfig env (authConfig w) = Inr cfg" "username input \<noteq> []"
    "password input \<noteq> []"
    and req: "invoke (handleCustomSRPAuthFlow env (username input) (password input)
      (clientMetadataOf input) cfg) w = (Inr response, w\<lparr>trace := trace w @ [AuthFlowInvoked], ext := x1\<rparr>)"
    and res: "AuthenticationResult response = Some result"
    by (simp_all add: invoke_eq)
  note eq = signInWithCustomSRPAuth_tokens [OF v req res, simplified]
  show "signInStore (snd (signInWithCustomSRPAuth env input w)) = None"
    unfolding eq catch_store by (rule handoff_store_empty)
  show "cachedAccessToken (tokensToCache result (getActiveSignInUsername env (username input) (signInStore w) x1) nd \<lparr>loginId = username input, authFlowType = ''CUSTOM_WITH_SRP''\<rparr>) = AccessToken result"
    and "cachedIdToken (tokensToCache result (getActiveSignInUsername env (username input) (signInStore w) x1) nd \<lparr>loginId = username input, authFlowType = ''CUSTOM_WITH_SRP''\<rparr>) = IdToken result"
    and "cachedRefreshToken (tokensToCache result (getActiveSignInUsername env (username input) (signInStore w) x1) nd \<lparr>loginId = username input, authFlowType = ''CUSTOM_WITH_SRP''\<rparr>) = RefreshToken result"
    by (simp_all add: tokensToCache_def)
  assume n: "getNewDeviceMetatada env (userPoolId cfg) (NewDeviceMetadata result) (AccessToken result)
         (x1) = (Inr nd, x2)"
  show "cacheHandoffs (trace (snd (signInWithCustomSRPAuth env input w))) =
           cacheHandoffs (trace w) @ [tokensToCache result (getActiveSignInUsername env (username input) (signInStore w) x1) nd \<lparr>loginId = username input, authFlowType = ''CUSTOM_WITH_SRP''\<rparr>]"
    unfolding eq catch_trace
    by (simp add: cacheTokensAndDispatch_handoff n cacheHandoffs_append)
  assume "persistTokens env (tokensToCache result (getActiveSignInUsername env (username input) (signInStore w) x1) nd \<lparr>loginId = username input, authFlowType = ''CUSTOM_WITH_SRP''\<rparr>) x2 = (Inr (), x3) \<and>
          getCurrentUser env x3 = (Inr user, x4)"
  then show "fst (signInWithCustomSRPAuth env input w) =
      Inr \<lparr>isSignedIn = True, nextStep = \<lparr>signInStep = ''DONE'', exposedParameters = []\<rparr>\<rparr>"
    unfolding eq catch_result
    by (simp add: cacheTokensAndDispatch_done [where ?x2.0 = x2 and ?x3.0 = x3 and ?x4.0 = x4] n)
qed


lemmas mock_defs = mockEnv_def mockWorld_def mockInput_def mockConfig_def mockFlow_def
  mockSuccess_def mockTokens_def mockChallenge_def

lemmas helper_defs = assertTokenProviderConfig_def assertValidationError_def clientMetadataOf_def
  retryOnResourceNotFoundException_def invoke_def isResourceNotFound_def clearDeviceMetadataFor_def

lemmas handoff_defs = cacheTokensAndDispatch_def tokensToCache_def cacheCognitoTokens_def
  setActiveSignInState_def cleanActiveSignInState_def Hub_dispatch_def getSignInResultFromError_def

text \<open>
  Claim C1 as stated fails: the token handoff is awaited inside the \<open>try\<close> block, so
  when it rejects the call throws instead of returning the \<open>DONE\<close> result. The
  scripted service gives \<open>gina\<close> an \<open>AuthenticationResult\<close> without an access token,
  which the token cache handoff rejects, on both entry points.
\<close>

theorem signIn_authentication_result_counterexample:
  "fst (retryOnResourceNotFoundException mockEnv
      (handleUserPasswordAuthFlow mockEnv ''gina'' ''Passw0rd!'' None mockConfig) ''gina'' mockWorld) =
     Inr (mockSuccess\<lparr>AuthenticationResult := Some (mockTokens\<lparr>AccessToken := None\<rparr>)\<rparr>) \<and>
   fst (handleCustomSRPAuthFlow mockEnv ''gina'' ''Passw0rd!'' None mockConfig (ext mockWorld)) =
     Inr (mockSuccess\<lparr>AuthenticationResult := Some (mockTokens\<lparr>AccessToken := None\<rparr>)\<rparr>) \<and>
   AuthenticationResult (mockSuccess\<lparr>AuthenticationResult := Some (mockTokens\<lparr>AccessToken := None\<rparr>)\<rparr>) =
     Some (mockTokens\<lparr>AccessToken := None\<rparr>) \<and>
   fst (signInWithUserPassword mockEnv (mockInput ''gina'' ''Passw0rd!'') mockWorld) =
     Inl (ServiceError ''InvalidTokens'' ''Invalid tokens'') \<and>
   fst (signInWithCustomSRPAuth mockEnv (mockInput ''gina'' ''Passw0rd!'') mockWorld) =
     Inl (ServiceError ''InvalidTokens'' ''Invalid tokens'')"
  by (simp add: signInWithUserPassword_def signInWithUserPassword_try_def signInWithCustomSRPAuth_def
      signInWithCustomSRPAuth_try_def mock_defs helper_defs handoff_defs Let_def)

text \<open>
The scripted service signs \<open>alice\<close> in on both entry points.
\<close>

theorem signIn_authentication_result_done_witness:
  "(assertTokenProviderConfig mockEnv (authConfig mockWorld) = Inr mockConfig \<and>
    username (mockInput ''alice'' ''Passw0rd!'') \<noteq> [] \<and>
    password (mockInput ''alice'' ''Passw0rd!'') \<noteq> [] \<and>
    fst (retryOnResourceNotFoundException mockEnv
      (handleUserPasswordAuthFlow mockEnv ''alice'' ''Passw0rd!'' None mockConfig) ''alice'' mockWorld) =
      Inr mockSuccess \<and>
    handleCustomSRPAuthFlow mockEnv ''alice'' ''Passw0rd!'' None mockConfig (ext mockWorld) =
      (Inr mockSuccess, True) \<and>
    AuthenticationResult mockSuccess = Some mockTokens \<and>
    getNewDeviceMetatada mockEnv (userPoolId mockConfig) (NewDeviceMetadata mockTokens)
      (AccessToken mockTokens) True = (Inr None, True) \<and>
    (\<forall>a d. persistTokens mockEnv (tokensToCache mockTokens a None d) True = (Inr (), True)) \<and>
    getCurrentUser mockEnv True = (Inr \<lparr>currentUsername = ''user'', currentUserId = ''1''\<rparr>, True)) \<and>
   fst (signInWithUserPassword mockEnv (mockInput ''alice'' ''Passw0rd!'') mockWorld) =
     Inr \<lparr>isSignedIn = True, nextStep = \<lparr>signInStep = ''DONE'', exposedParameters = []\<rparr>\<rparr> \<and>
   signInStore (snd (signInWithUserPassword mockEnv (mockInput ''alice'' ''Passw0rd!'') mockWorld)) = None \<and>
   cacheHandoffs (trace (snd (signInWithUserPassword mockEnv (mockInput ''alice'' ''Passw0rd!'') mockWorld))) =
     [tokensToCache mockTokens ''alice'' None \<lparr>loginId = ''alice'', authFlowType = ''USER_PASSWORD_AUTH''\<rparr>] \<and>
   fst (signInWithCustomSRPAuth mockEnv (mockInput ''alice'' ''Passw0rd!'') mockWorld) =
     Inr \<lparr>isSignedIn = True, nextStep = \<lparr>signInStep = ''DONE'', exposedParameters = []\<rparr>\<rparr> \<and>
   signInStore (snd (signInWithCustomSRPAuth mockEnv (mockInput ''alice'' ''Passw0rd!'') mockWorld)) = None \<and>
   cacheHandoffs (trace (snd (signInWithCustomSRPAuth mockEnv (mockInput ''alice'' ''Passw0rd!'') mockWorld))) =
     [tokensToCache mockTokens ''alice'' None \<lparr>loginId = ''alice'', authFlowType = ''CUSTOM_WITH_SRP''\<rparr>]"
proof -
  let ?i = "mockInput ''alice'' ''Passw0rd!''"
  let ?w1 = "snd (retryOnResourceNotFoundException mockEnv
      (handleUserPasswordAuthFlow mockEnv ''alice'' ''Passw0rd!'' None mockConfig) ''alice'' mockWorld)"
  let ?u = "\<lparr>currentUsername = ''user'', currentUserId = ''1''\<rparr>"
  have i: "username ?i = ''alice''" "password ?i = ''Passw0rd!''" "clientMetadataOf ?i = None"
    by (simp_all add: mockInput_def clientMetadataOf_def)
  have c: "assertTokenProviderConfig mockEnv (authConfig mockWorld) = Inr mockConfig"
    by (simp add: mock_defs helper_defs)
  have r1: "fst (retryOnResourceNotFoundException mockEnv
      (handleUserPasswordAuthFlow mockEnv ''alice'' ''Passw0rd!'' None mockConfig) ''alice'' mockWorld) =
      Inr mockSuccess"
    by (simp add: mockEnv_def mockFlow_def helper_defs)
  then have r: "retryOnResourceNotFoundException mockEnv
      (handleUserPasswordAuthFlow mockEnv ''alice'' ''Passw0rd!'' None mockConfig) ''alice'' mockWorld =
      (Inr mockSuccess, ?w1)"
    by (simp add: prod_eq_iff)
  have x: "ext ?w1 = True"
    by (simp add: mockEnv_def mockFlow_def mockWorld_def helper_defs)
  have s: "handleCustomSRPAuthFlow mockEnv ''alice'' ''Passw0rd!'' None mockConfig (ext mockWorld) =
      (Inr mockSuccess, True)"
    by (simp add: mockEnv_def mockFlow_def mockWorld_def)
  have a: "AuthenticationResult mockSuccess = Some mockTokens"
    by (simp add: mockSuccess_def)
  have n: "getNewDeviceMetatada mockEnv (userPoolId mockConfig) (NewDeviceMetadata mockTokens)
      (AccessToken mockTokens) True = (Inr None, True)"
    by (simp add: mockEnv_def)
  have p: "\<forall>a d. persistTokens mockEnv (tokensToCache mockTokens a None d) True = (Inr (), True)"
    by (simp add: mockEnv_def tokensToCache_def mockTokens_def)
  have g: "getCurrentUser mockEnv True = (Inr ?u, True)"
    by (simp add: mockEnv_def)
  have k: "getActiveSignInUsername mockEnv ''alice'' (signInStore mockWorld) True = ''alice''"
    "trace mockWorld = []"
    by (simp_all add: mockEnv_def mockWorld_def)
  note t = signIn_authentication_result_done [where env = mockEnv and w = mockWorld and cfg = mockConfig
      and input = ?i and response = mockSuccess and ?w1.0 = ?w1 and ?x1.0 = True and result = mockTokens
      and nd = None and ?x2.0 = True and ?x3.0 = True and user = ?u and ?x4.0 = True,
      unfolded i x k]
  from t c r s a n p g
  have "fst (signInWithUserPassword mockEnv ?i mockWorld) =
     Inr \<lparr>isSignedIn = True, nextStep = \<lparr>signInStep = ''DONE'', exposedParameters = []\<rparr>\<rparr> \<and>
   signInStore (snd (signInWithUserPassword mockEnv ?i mockWorld)) = None \<and>
   cacheHandoffs (trace (snd (signInWithUserPassword mockEnv ?i mockWorld))) =
     [] @ [tokensToCache mockTokens ''alice'' None \<lparr>loginId = ''alice'', authFlowType = ''USER_PASSWORD_AUTH''\<rparr>] \<and>
   fst (signInWithCustomSRPAuth mockEnv ?i mockWorld) =
     Inr \<lparr>isSignedIn = True, nextStep = \<lparr>signInStep = ''DONE'', exposedParameters = []\<rparr>\<rparr> \<and>
   signInStore (snd (signInWithCustomSRPAuth mockEnv ?i mockWorld)) = None \<and>
   cacheHandoffs (trace (snd (signInWithCustomSRPAuth mockEnv ?i mockWorld))) =
     [] @ [tokensToCache mockTokens ''alice'' None \<lparr>loginId = ''alice'', authFlowType = ''CUSTOM_WITH_SRP''\<rparr>]"
    by simp
  with c r1 s a n p g i show ?thesis by simp
qed

section \<open>Intermediate challenge\<close>

lemma signInWithUserPassword_try_challenge:
  assumes req: "retryOnResourceNotFoundException env
             (handleUserPasswordAuthFlow env uname pword metadata cfg) uname w = (Inr response, w1)"
    and res: "AuthenticationResult response = None"
  shows "signInWithUserPassword_try env uname pword metadata cfg details w =
     (Inr (getSignInResult env (ChallengeName response) (ChallengeParameters response)),
      w1\<lparr>signInStore := Some \<lparr>signInSession = Session response,
              stateUsername = getActiveSignInUsername env uname (signInStore w) (ext w1),
              challengeName = ChallengeName response, signInDetails = details\<rparr>\<rparr>)"
  using retry_frame(1)[OF req]
  by (simp add: signInWithUserPassword_try_def req res Let_def setActiveSignInState_def)

lemma signInWithCustomSRPAuth_try_challenge:
  assumes req: "invoke (handleCustomSRPAuthFlow env uname pword metadata cfg) w = (Inr response, w1)"
    and res: "AuthenticationResult response = None"
  shows "signInWithCustomSRPAuth_try env uname pword metadata cfg details w =
     (Inr (getSignInResult env (ChallengeName response) (ChallengeParameters response)),
      w1\<lparr>signInStore := Some \<lparr>signInSession = Session response,
              stateUsername = getActiveSignInUsername env uname (signInStore w) (ext w1),
              challengeName = ChallengeName response, signInDetails = details\<rparr>\<rparr>)"
  using invoke_frame(1)[OF req]
  by (simp add: signInWithCustomSRPAuth_try_def req res Let_def setActiveSignInState_def)

lemma getSignInResult_recognized:
  assumes "challengeNextStep env c = Some (step, keys)"
  shows "getSignInResult env (Some c) params =
     Inr \<lparr>isSignedIn = False,
          nextStep = \<lparr>signInStep = step,
            exposedParameters =
              filter (\<lambda>kv. fst kv \<in> set keys) (case params of None \<Rightarrow> [] | Some ps \<Rightarrow> ps)\<rparr>\<rparr>"
  using assms by (simp add: getSignInResult_def)

text \<open>
  Claim C2. A call of \<open>signInWithUserPassword\<close> or \<open>signInWithCustomSRPAuth\<close> whose
  initial request resolves with no \<open>AuthenticationResult\<close> and with a \<open>ChallengeName\<close>
  that the static mapping recognises returns a result with \<open>isSignedIn\<close> false and
  with the \<open>signInStep\<close> the mapping gives for that challenge; afterwards the Active
  Sign-In State holds the returned \<open>Session\<close>, the challenge, and the username of the
  attempt as \<open>getActiveSignInUsername\<close> resolves it after the request.
\<close>

theorem signIn_challenge_next_step:
  "(assertTokenProviderConfig env (authConfig w) = Inr cfg \<and>
    username input \<noteq> [] \<and> password input \<noteq> [] \<and>
    retryOnResourceNotFoundException env
      (handleUserPasswordAuthFlow env (username input) (password input) (clientMetadataOf input) cfg)
      (username input) w = (Inr response, w1) \<and>
    AuthenticationResult response = None \<and> ChallengeName response = Some c \<and>
    challengeNextStep env c = Some (step, keys) \<longrightarrow>
      (\<exists>out. fst (signInWithUserPassword env input w) = Inr out \<and>
         isSignedIn out = False \<and> signInStep (nextStep out) = step) \<and>
      signInStore (snd (signInWithUserPassword env input w)) =
        Some \<lparr>signInSession = Session response,
              stateUsername = getActiveSignInUsername env (username input) (signInStore w) (ext w1),
              challengeName = Some c,
              signInDetails = \<lparr>loginId = username input, authFlowType = ''USER_PASSWORD_AUTH''\<rparr>\<rparr>) \<and>
   (assertTokenProviderConfig env (authConfig w) = Inr cfg \<and>
    username input \<noteq> [] \<and> password input \<noteq> [] \<and>
    handleCustomSRPAuthFlow env (username input) (password input) (clientMetadataOf input) cfg (ext w) =
      (Inr response, x1) \<and>
    AuthenticationResult response = None \<and> ChallengeName response = Some c \<and>
    challengeNextStep env c = Some (step, keys) \<longrightarrow>
      (\<exists>out. fst (signInWithCustomSRPAuth env input w) = Inr out \<and>
         isSignedIn out = False \<and> signInStep (nextStep out) = step) \<and>
      signInStore (snd (signInWithCustomSRPAuth env input w)) =
        Some \<lparr>signInSession = Session response,
              stateUsername = getActiveSignInUsername env (username input) (signInStore w) x1,
              challengeName = Some c,
              signInDetails = \<lparr>loginId = username input, authFlowType = ''CUSTOM_WITH_SRP''\<rparr>\<rparr>)"
proof (intro conjI impI)
  assume h: "assertTokenProviderConfig env (authConfig w) = Inr cfg \<and>
    username input \<noteq> [] \<and> password input \<noteq> [] \<and>
    retryOnResourceNotFoundException env
      (handleUserPasswordAuthFlow env (username input) (password input) (clientMetadataOf input) cfg)
      (username input) w = (Inr response, w1) \<and>
    AuthenticationResult response = None \<and> ChallengeName response = Some c \<and>
    challengeNextStep env c = Some (step, keys)"
  then have req: "retryOnResourceNotFoundException env
      (handleUserPasswordAuthFlow env (username input) (password input) (clientMetadataOf input) cfg)
      (username input) w = (Inr response, w1)" and res: "AuthenticationResult response = None"
    and ch: "ChallengeName response = Some c" and st: "challengeNextStep env c = Some (step, keys)"
    by simp_all
  note t = signInWithUserPassword_try_challenge [OF req res]
  note g = getSignInResult_recognized [OF st]
  have v: "assertTokenProviderConfig env (authConfig w) = Inr cfg" "username input \<noteq> []"
    "password input \<noteq> []" using h by simp_all
  show "\<exists>out. fst (signInWithUserPassword env input w) = Inr out \<and>
         isSignedIn out = False \<and> signInStep (nextStep out) = step"
    by (simp add: signInWithUserPassword_valid [OF v] t ch g)
  show "signInStore (snd (signInWithUserPassword env input w)) =
        Some \<lparr>signInSession = Session response,
              stateUsername = getActiveSignInUsername env (username input) (signInStore w) (ext w1),
              challengeName = Some c,
              signInDetails = \<lparr>loginId = username input, authFlowType = ''USER_PASSWORD_AUTH''\<rparr>\<rparr>"
    by (simp add: signInWithUserPassword_valid [OF v] t ch g)
next
  assume h: "assertTokenProviderConfig env (authConfig w) = Inr cfg \<and>
    username input \<noteq> [] \<and> password input \<noteq> [] \<and>
    handleCustomSRPAuthFlow env (username input) (password input) (clientMetadataOf input) cfg (ext w) =
      (Inr response, x1) \<and>
    AuthenticationResult response = None \<and> ChallengeName response = Some c \<and>
    challengeNextStep env c = Some (step, keys)"
  then have req: "invoke (handleCustomSRPAuthFlow env (username input) (password input) (clientMetadataOf input) cfg) w
      = (Inr response, w\<lparr>trace := trace w @ [AuthFlowInvoked], ext := x1\<rparr>)"
    and res: "AuthenticationResult response = None"
    and ch: "ChallengeName response = Some c" and st: "challengeNextStep env c = Some (step, keys)"
    by (simp_all add: invoke_eq)
  note t = signInWithCustomSRPAuth_try_challenge [OF req res]
  note g = getSignInResult_recognized [OF st]
  have v: "assertTokenProviderConfig env (authConfig w) = Inr cfg" "username input \<noteq> []"
    "password input \<noteq> []" using h by simp_all
  show "\<exists>out. fst (signInWithCustomSRPAuth env input w) = Inr out \<and>
         isSignedIn out = False \<and> signInStep (nextStep out) = step"
    by (simp add: signInWithCustomSRPAuth_valid [OF v] t ch g)
  show "signInStore (snd (signInWithCustomSRPAuth env input w)) =
        Some \<lparr>signInSession = Session response,
              stateUsername = getActiveSignInUsername env (username input) (signInStore w) x1,
              challengeName = Some c,
              signInDetails = \<lparr>loginId = username input, authFlowType = ''CUSTOM_WITH_SRP''\<rparr>\<rparr>"
    by (simp add: signInWithCustomSRPAuth_valid [OF v] t ch g)
qed

text \<open>
The scripted service sends \<open>bob\<close> the \<open>SMS_MFA\<close> challenge on both entry points.
\<close>

theorem signIn_challenge_next_step_witness:
  "(assertTokenProviderConfig mockEnv (authConfig mockWorld) = Inr mockConfig \<and>
    username (mockInput ''bob'' ''Passw0rd!'') \<noteq> [] \<and>
    password (mockInput ''bob'' ''Passw0rd!'') \<noteq> [] \<and>
    fst (retryOnResourceNotFoundException mockEnv
      (handleUserPasswordAuthFlow mockEnv ''bob'' ''Passw0rd!'' None mockConfig) ''bob'' mockWorld) =
      Inr (mockChallenge ''SMS_MFA'') \<and>
    handleCustomSRPAuthFlow mockEnv ''bob'' ''Passw0rd!'' None mockConfig (ext mockWorld) =
      (Inr (mockChallenge ''SMS_MFA''), True) \<and>
    AuthenticationResult (mockChallenge ''SMS_MFA'') = None \<and>
    ChallengeName (mockChallenge ''SMS_MFA'') = Some ''SMS_MFA'' \<and>
    challengeNextStep mockEnv ''SMS_MFA'' =
      Some (''CONFIRM_SIGN_IN_WITH_SMS_CODE'', [''CODE_DELIVERY_DESTINATION''])) \<and>
   (\<exists>out. fst (signInWithUserPassword mockEnv (mockInput ''bob'' ''Passw0rd!'') mockWorld) = Inr out \<and>
      isSignedIn out = False \<and> signInStep (nextStep out) = ''CONFIRM_SIGN_IN_WITH_SMS_CODE'') \<and>
   signInStore (snd (signInWithUserPassword mockEnv (mockInput ''bob'' ''Passw0rd!'') mockWorld)) =
     Some \<lparr>signInSession = Some ''session-1'', stateUsername = ''bob'',
           challengeName = Some ''SMS_MFA'',
           signInDetails = \<lparr>loginId = ''bob'', authFlowType = ''USER_PASSWORD_AUTH''\<rparr>\<rparr> \<and>
   (\<exists>out. fst (signInWithCustomSRPAuth mockEnv (mockInput ''bob'' ''Passw0rd!'') mockWorld) = Inr out \<and>
      isSignedIn out = False \<and> signInStep (nextStep out) = ''CONFIRM_SIGN_IN_WITH_SMS_CODE'') \<and>
   signInStore (snd (signInWithCustomSRPAuth mockEnv (mockInput ''bob'' ''Passw0rd!'') mockWorld)) =
     Some \<lparr>signInSession = Some ''session-1'', stateUsername = ''bob'',
           challengeName = Some ''SMS_MFA'',
           signInDetails = \<lparr>loginId = ''bob'', authFlowType = ''CUSTOM_WITH_SRP''\<rparr>\<rparr>"
proof -
  let ?i = "mockInput ''bob'' ''Passw0rd!''"
  let ?w1 = "snd (retryOnResourceNotFoundException mockEnv
      (handleUserPasswordAuthFlow mockEnv ''bob'' ''Passw0rd!'' None mockConfig) ''bob'' mockWorld)"
  have i: "username ?i = ''bob''" "password ?i = ''Passw0rd!''" "clientMetadataOf ?i = None"
    by (simp_all add: mockInput_def clientMetadataOf_def)
  have c: "assertTokenProviderConfig mockEnv (authConfig mockWorld) = Inr mockConfig"
    by (simp add: mock_defs helper_defs)
  have r1: "fst (retryOnResourceNotFoundException mockEnv
      (handleUserPasswordAuthFlow mockEnv ''bob'' ''Passw0rd!'' None mockConfig) ''bob'' mockWorld) =
      Inr (mockChallenge ''SMS_MFA'')"
    by (simp add: mockEnv_def mockFlow_def helper_defs)
  then have r: "retryOnResourceNotFoundException mockEnv
      (handleUserPasswordAuthFlow mockEnv ''bob'' ''Passw0rd!'' None mockConfig) ''bob'' mockWorld =
      (Inr (mockChallenge ''SMS_MFA''), ?w1)"
    by (simp add: prod_eq_iff)
  have s: "handleCustomSRPAuthFlow mockEnv ''bob'' ''Passw0rd!'' None mockConfig (ext mockWorld) =
      (Inr (mockChallenge ''SMS_MFA''), True)"
    by (simp add: mockEnv_def mockFlow_def mockWorld_def)
  have a: "AuthenticationResult (mockChallenge ''SMS_MFA'') = None"
    "ChallengeName (mockChallenge ''SMS_MFA'') = Some ''SMS_MFA''"
    "Session (mockChallenge ''SMS_MFA'') = Some ''session-1''"
    by (simp_all add: mockChallenge_def)
  have m: "challengeNextStep mockEnv ''SMS_MFA'' =
      Some (''CONFIRM_SIGN_IN_WITH_SMS_CODE'', [''CODE_DELIVERY_DESTINATION''])"
    by (simp add: mockEnv_def)
  have u: "getActiveSignInUsername mockEnv ''bob'' (signInStore mockWorld) (ext ?w1) = ''bob''"
    "getActiveSignInUsername mockEnv ''bob'' (signInStore mockWorld) True = ''bob''"
    by (simp_all add: mockEnv_def)
  note t = signIn_challenge_next_step [where env = mockEnv and w = mockWorld and cfg = mockConfig
      and input = ?i and response = "mockChallenge ''SMS_MFA''" and ?w1.0 = ?w1 and ?x1.0 = True
      and c = "''SMS_MFA''" and step = "''CONFIRM_SIGN_IN_WITH_SMS_CODE''"
      and keys = "[''CODE_DELIVERY_DESTINATION'']", unfolded i]
  from t c r s a(1,2) m
  have "(\<exists>out. fst (signInWithUserPassword mockEnv ?i mockWorld) = Inr out \<and>
      isSignedIn out = False \<and> signInStep (nextStep out) = ''CONFIRM_SIGN_IN_WITH_SMS_CODE'') \<and>
   signInStore (snd (signInWithUserPassword mockEnv ?i mockWorld)) =
        Some \<lparr>signInSession = Session (mockChallenge ''SMS_MFA''),
              stateUsername = getActiveSignInUsername mockEnv ''bob'' (signInStore mockWorld) (ext ?w1),
              challengeName = Some ''SMS_MFA'',
              signInDetails = \<lparr>loginId = ''bob'', authFlowType = ''USER_PASSWORD_AUTH''\<rparr>\<rparr> \<and>
   (\<exists>out. fst (signInWithCustomSRPAuth mockEnv ?i mockWorld) = Inr out \<and>
      isSignedIn out = False \<and> signInStep (nextStep out) = ''CONFIRM_SIGN_IN_WITH_SMS_CODE'') \<and>
   signInStore (snd (signInWithCustomSRPAuth mockEnv ?i mockWorld)) =
        Some \<lparr>signInSession = Session (mockChallenge ''SMS_MFA''),
              stateUsername = getActiveSignInUsername mockEnv ''bob'' (signInStore mockWorld) True,
              challengeName = Some ''SMS_MFA'',
              signInDetails = \<lparr>loginId = ''bob'', authFlowType = ''CUSTOM_WITH_SRP''\<rparr>\<rparr>"
    by blast
  then show ?thesis using c r1 s a m u i by simp
qed

section \<open>Configuration assertion and validation\<close>

lemma signInWithUserPassword_config_error:
  assumes "assertTokenProviderConfig env (authConfig w) = Inl e"
  shows "signInWithUserPassword env input w = (Inl e, w)"
  using assms by (simp add: signInWithUserPassword_def Let_def)

lemma signInWithCustomSRPAuth_config_error:
  assumes "assertTokenProviderConfig env (authConfig w) = Inl e"
  shows "signInWithCustomSRPAuth env input w = (Inl e, w)"
  using assms by (simp add: signInWithCustomSRPAuth_def Let_def)

lemma assertTokenProviderConfig_fails:
  assumes "authConfig w = None \<or> (\<exists>c. authConfig w = Some c \<and> \<not> validTokenProviderConfig env c)"
  shows "assertTokenProviderConfig env (authConfig w) = Inl AuthTokenConfigException"
  using assms by (auto simp: assertTokenProviderConfig_def)

text \<open>
  Claim C9. In both entry points the token-provider configuration assertion comes
  before the validation of username and password: for an input with an empty
  username or an empty password, when the configuration is missing or invalid the
  call throws the configuration error, not a validation error (and leaves the world
  as it was).
\<close>

theorem signIn_config_assertion_first:
  "(username input = [] \<or> password input = []) \<and>
   (authConfig w = None \<or> (\<exists>c. authConfig w = Some c \<and> \<not> validTokenProviderConfig env c)) \<longrightarrow>
     signInWithUserPassword env input w = (Inl AuthTokenConfigException, w) \<and>
     signInWithCustomSRPAuth env input w = (Inl AuthTokenConfigException, w) \<and>
     (\<forall>code. fst (signInWithUserPassword env input w) \<noteq> Inl (ValidationError code) \<and>
             fst (signInWithCustomSRPAuth env input w) \<noteq> Inl (ValidationError code))"
proof
  assume h: "(username input = [] \<or> password input = []) \<and>
   (authConfig w = None \<or> (\<exists>c. authConfig w = Some c \<and> \<not> validTokenProviderConfig env c))"
  then have f: "assertTokenProviderConfig env (authConfig w) = Inl AuthTokenConfigException"
    by (intro assertTokenProviderConfig_fails) simp
  show "signInWithUserPassword env input w = (Inl AuthTokenConfigException, w) \<and>
     signInWithCustomSRPAuth env input w = (Inl AuthTokenConfigException, w) \<and>
     (\<forall>code. fst (signInWithUserPassword env input w) \<noteq> Inl (ValidationError code) \<and>
             fst (signInWithCustomSRPAuth env input w) \<noteq> Inl (ValidationError code))"
    by (simp add: signInWithUserPassword_config_error [OF f] signInWithCustomSRPAuth_config_error [OF f])
qed

text \<open>
An empty password on a configuration with an empty pool identifier.
\<close>

theorem signIn_config_assertion_first_witness:
  "(username (mockInput ''alice'' []) = [] \<or> password (mockInput ''alice'' []) = []) \<and>
   (authConfig badConfigWorld = None \<or>
    (\<exists>c. authConfig badConfigWorld = Some c \<and> \<not> validTokenProviderConfig mockEnv c)) \<and>
   signInWithUserPassword mockEnv (mockInput ''alice'' []) badConfigWorld =
     (Inl AuthTokenConfigException, badConfigWorld) \<and>
   signInWithCustomSRPAuth mockEnv (mockInput ''alice'' []) badConfigWorld =
     (Inl AuthTokenConfigException, badConfigWorld)"
proof -
  have a: "username (mockInput ''alice'' []) = [] \<or> password (mockInput ''alice'' []) = []"
    by (simp add: mockInput_def)
  have b: "authConfig badConfigWorld = None \<or>
    (\<exists>c. authConfig badConfigWorld = Some c \<and> \<not> validTokenProviderConfig mockEnv c)"
    by (simp add: badConfigWorld_def mockWorld_def mockEnv_def)
  from signIn_config_assertion_first [of "mockInput ''alice'' []" badConfigWorld mockEnv] a b
  have "signInWithUserPassword mockEnv (mockInput ''alice'' []) badConfigWorld =
     (Inl AuthTokenConfigException, badConfigWorld) \<and>
   signInWithCustomSRPAuth mockEnv (mockInput ''alice'' []) badConfigWorld =
     (Inl AuthTokenConfigException, badConfigWorld)"
    by blast
  with a b show ?thesis by blast
qed

text \<open>
  Claim C3 as stated fails: with no configuration, an input with an empty username
  fails with the configuration error on both entry points, not with
  \<open>EmptySignInUsername\<close>.
\<close>

theorem signIn_validation_counterexample:
  "username (mockInput [] ''Passw0rd!'') = [] \<and>
   fst (signInWithUserPassword mockEnv (mockInput [] ''Passw0rd!'') (mockWorld\<lparr>authConfig := None\<rparr>)) =
     Inl AuthTokenConfigException \<and>
   fst (signInWithCustomSRPAuth mockEnv (mockInput [] ''Passw0rd!'') (mockWorld\<lparr>authConfig := None\<rparr>)) =
     Inl AuthTokenConfigException"
  by (simp add: signInWithUserPassword_def signInWithCustomSRPAuth_def mockInput_def mockWorld_def
      assertTokenProviderConfig_def)

text \<open>
  Claim C3, amended. When the token-provider configuration assertion passes: an input
  with an empty username fails with \<open>EmptySignInUsername\<close>, an input with a non-empty
  username and an empty password fails with \<open>EmptySignInPassword\<close>, on both entry
  points; the world is returned as it was, so no request function is invoked and no
  other collaborator is called.
\<close>

theorem signIn_validation_errors:
  "assertTokenProviderConfig env (authConfig w) = Inr cfg \<longrightarrow>
     (username input = [] \<longrightarrow>
        signInWithUserPassword env input w = (Inl (ValidationError EmptySignInUsername), w) \<and>
        signInWithCustomSRPAuth env input w = (Inl (ValidationError EmptySignInUsername), w)) \<and>
     (username input \<noteq> [] \<and> password input = [] \<longrightarrow>
        signInWithUserPassword env input w = (Inl (ValidationError EmptySignInPassword), w) \<and>
        signInWithCustomSRPAuth env input w = (Inl (ValidationError EmptySignInPassword), w))"
  by (simp add: signInWithUserPassword_def signInWithCustomSRPAuth_def assertValidationError_def Let_def)

text \<open>
Both fields empty, and only the password empty, on the scripted service.
\<close>

theorem signIn_validation_errors_witness:
  "assertTokenProviderConfig mockEnv (authConfig mockWorld) = Inr mockConfig \<and>
   username (mockInput [] []) = [] \<and>
   username (mockInput ''alice'' []) \<noteq> [] \<and> password (mockInput ''alice'' []) = [] \<and>
   signInWithUserPassword mockEnv (mockInput [] []) mockWorld =
     (Inl (ValidationError EmptySignInUsername), mockWorld) \<and>
   signInWithCustomSRPAuth mockEnv (mockInput [] []) mockWorld =
     (Inl (ValidationError EmptySignInUsername), mockWorld) \<and>
   signInWithUserPassword mockEnv (mockInput ''alice'' []) mockWorld =
     (Inl (ValidationError EmptySignInPassword), mockWorld) \<and>
   signInWithCustomSRPAuth mockEnv (mockInput ''alice'' []) mockWorld =
     (Inl (ValidationError EmptySignInPassword), mockWorld) \<and>
   trace (snd (signInWithUserPassword mockEnv (mockInput ''alice'' []) mockWorld)) = []"
proof -
  have c: "assertTokenProviderConfig mockEnv (authConfig mockWorld) = Inr mockConfig"
    by (simp add: mock_defs helper_defs)
  have i: "username (mockInput [] []) = []" "username (mockInput ''alice'' []) \<noteq> []"
    "password (mockInput ''alice'' []) = []"
    by (simp_all add: mockInput_def)
  from signIn_validation_errors [of mockEnv mockWorld mockConfig "mockInput [] []"] c i
  have u: "signInWithUserPassword mockEnv (mockInput [] []) mockWorld =
     (Inl (ValidationError EmptySignInUsername), mockWorld) \<and>
   signInWithCustomSRPAuth mockEnv (mockInput [] []) mockWorld =
     (Inl (ValidationError EmptySignInUsername), mockWorld)"
    by blast
  from signIn_validation_errors [of mockEnv mockWorld mockConfig "mockInput ''alice'' []"] c i
  have p: "signInWithUserPassword mockEnv (mockInput ''alice'' []) mockWorld =
     (Inl (ValidationError EmptySignInPassword), mockWorld) \<and>
   signInWithCustomSRPAuth mockEnv (mockInput ''alice'' []) mockWorld =
     (Inl (ValidationError EmptySignInPassword), mockWorld)"
    by blast
  have t: "trace mockWorld = []" by (simp add: mockWorld_def)
  from c i u p t show ?thesis by simp
qed

section \<open>The retry wrapper\<close>

lemma retry_first_success:
  assumes "func (ext w) = (Inr r, x1)"
  shows "retryOnResourceNotFoundException env func uname w =
     (Inr r, w\<lparr>trace := trace w @ [AuthFlowInvoked], ext := x1\<rparr>)"
  using assms by (simp add: retryOnResourceNotFoundException_def invoke_def)

lemma retry_other_failure:
  assumes "func (ext w) = (Inl e, x1)" and "\<not> isResourceNotFound e"
  shows "retryOnResourceNotFoundException env func uname w =
     (Inl e, w\<lparr>trace := trace w @ [AuthFlowInvoked], ext := x1\<rparr>)"
  using assms by (simp add: retryOnResourceNotFoundException_def invoke_def)

lemma retry_resource_not_found:
  assumes "func (ext w) = (Inl e, x1)" and "isResourceNotFound e"
    and "func (clearDeviceMetadata env uname x1) = (r2, x2)"
  shows "retryOnResourceNotFoundException env func uname w =
     (r2, w\<lparr>trace := trace w @ [AuthFlowInvoked, DeviceMetadataCleared uname, AuthFlowInvoked],
            ext := x2\<rparr>)"
  using assms
  by (simp add: retryOnResourceNotFoundException_def invoke_def clearDeviceMetadataFor_def)

lemma retry_invocations_bound:
  "invocations (trace (snd (retryOnResourceNotFoundException env func uname w))) \<le>
     invocations (trace w) + 2"
proof -
  obtain r1 x1 where f1: "func (ext w) = (r1, x1)" by (cases "func (ext w)")
  obtain r2 x2 where f2: "func (clearDeviceMetadata env uname x1) = (r2, x2)"
    by (cases "func (clearDeviceMetadata env uname x1)")
  show ?thesis
  proof (cases r1)
    case (Inr r)
    with f1 show ?thesis by (simp add: retry_first_success invocations_append)
  next
    case (Inl e)
    show ?thesis
    proof (cases "isResourceNotFound e")
      case True
      with f1 f2 Inl show ?thesis by (simp add: retry_resource_not_found invocations_append)
    next
      case False
      with f1 Inl show ?thesis by (simp add: retry_other_failure invocations_append)
    qed
  qed
qed

text \<open>
  Claim C4. When the first invocation of the request function fails with the
  resource-not-found error name, the device context of the username is cleared and
  the function is invoked exactly once more, on the cleared context; the outcome of
  that second invocation is the outcome of the wrapper, be it a result (the same
  value a first-attempt success would give) or an error (the second error is the one
  propagated). In no execution does the wrapper invoke the function more than twice.
\<close>

theorem retryOnResourceNotFoundException_retries_once:
  "(func (ext w) = (Inl e, x1) \<and> isResourceNotFound e \<and>
    func (clearDeviceMetadata env uname x1) = (r2, x2) \<longrightarrow>
      retryOnResourceNotFoundException env func uname w =
        (r2, w\<lparr>trace := trace w @ [AuthFlowInvoked, DeviceMetadataCleared uname, AuthFlowInvoked],
               ext := x2\<rparr>) \<and>
      invocations (trace (snd (retryOnResourceNotFoundException env func uname w))) =
        invocations (trace w) + 2) \<and>
   invocations (trace (snd (retryOnResourceNotFoundException env func uname w))) \<le>
     invocations (trace w) + 2"
proof (intro conjI impI)
  assume h: "func (ext w) = (Inl e, x1) \<and> isResourceNotFound e \<and>
    func (clearDeviceMetadata env uname x1) = (r2, x2)"
  then have a: "func (ext w) = (Inl e, x1)" and b: "isResourceNotFound e"
    and c: "func (clearDeviceMetadata env uname x1) = (r2, x2)"
    by simp_all
  note eq = retry_resource_not_found [OF a b c]
  then show "retryOnResourceNotFoundException env func uname w =
        (r2, w\<lparr>trace := trace w @ [AuthFlowInvoked, DeviceMetadataCleared uname, AuthFlowInvoked],
               ext := x2\<rparr>)" .
  show "invocations (trace (snd (retryOnResourceNotFoundException env func uname w))) =
        invocations (trace w) + 2"
    by (simp add: eq invocations_append)
next
  show "invocations (trace (snd (retryOnResourceNotFoundException env func uname w))) \<le>
     invocations (trace w) + 2"
    by (rule retry_invocations_bound)
qed


text \<open>
The first request of \<open>carol\<close> meets a stale device record, the second succeeds.
\<close>

theorem retryOnResourceNotFoundException_retries_once_witness:
  "mockFlow ''carol'' ''Passw0rd!'' None mockConfig (ext mockWorld) =
     (Inl (ServiceError ''ResourceNotFoundException'' ''Device does not exist.''), True) \<and>
   isResourceNotFound (ServiceError ''ResourceNotFoundException'' ''Device does not exist.'') \<and>
   mockFlow ''carol'' ''Passw0rd!'' None mockConfig (clearDeviceMetadata mockEnv ''carol'' True) =
     (Inr mockSuccess, False) \<and>
   retryOnResourceNotFoundException mockEnv (mockFlow ''carol'' ''Passw0rd!'' None mockConfig)
       ''carol'' mockWorld =
     (Inr mockSuccess,
      mockWorld\<lparr>trace := trace mockWorld @ [AuthFlowInvoked, DeviceMetadataCleared ''carol'', AuthFlowInvoked],
                ext := False\<rparr>)"
proof -
  let ?f = "mockFlow ''carol'' ''Passw0rd!'' None mockConfig"
  let ?e = "ServiceError ''ResourceNotFoundException'' ''Device does not exist.''"
  have a: "?f (ext mockWorld) = (Inl ?e, True)"
    by (simp add: mockFlow_def mockWorld_def)
  have b: "isResourceNotFound ?e"
    by (simp add: isResourceNotFound_def)
  have c: "?f (clearDeviceMetadata mockEnv ''carol'' True) = (Inr mockSuccess, False)"
    by (simp add: mockFlow_def mockEnv_def)
  from retryOnResourceNotFoundException_retries_once [of ?f mockWorld ?e True mockEnv "''carol''"
      "Inr mockSuccess" False] a b c
  have "retryOnResourceNotFoundException mockEnv ?f ''carol'' mockWorld =
     (Inr mockSuccess,
      mockWorld\<lparr>trace := trace mockWorld @ [AuthFlowInvoked, DeviceMetadataCleared ''carol'', AuthFlowInvoked],
                ext := False\<rparr>)"
    by blast
  with a b c show ?thesis by blast
qed

section \<open>Failures and the Active Sign-In State\<close>

lemma signInWithUserPassword_request_rejected:
  assumes v: "assertTokenProviderConfig env (authConfig w) = Inr cfg" "username input \<noteq> []"
      "password input \<noteq> []"
    and r: "fst (retryOnResourceNotFoundException env
      (handleUserPasswordAuthFlow env (username input) (password input) (clientMetadataOf input) cfg)
      (username input) w) = Inl e'"
  shows "signInStore (snd (signInWithUserPassword env input w)) = None"
proof -
  obtain w1 where "retryOnResourceNotFoundException env
      (handleUserPasswordAuthFlow env (username input) (password input) (clientMetadataOf input) cfg)
      (username input) w = (Inl e', w1)"
    using r by (cases "retryOnResourceNotFoundException env
      (handleUserPasswordAuthFlow env (username input) (password input) (clientMetadataOf input) cfg)
      (username input) w") simp
  then show ?thesis
    by (simp add: signInWithUserPassword_valid [OF v] signInWithUserPassword_try_def
        cleanActiveSignInState_def split: option.splits)
qed

lemma signInWithCustomSRPAuth_request_rejected:
  assumes v: "assertTokenProviderConfig env (authConfig w) = Inr cfg" "username input \<noteq> []"
      "password input \<noteq> []"
    and r: "fst (handleCustomSRPAuthFlow env (username input) (password input) (clientMetadataOf input) cfg (ext w)) = Inl e'"
  shows "signInStore (snd (signInWithCustomSRPAuth env input w)) = None"
  using r
  by (simp add: signInWithCustomSRPAuth_valid [OF v] signInWithCustomSRPAuth_try_def invoke_eq
      cleanActiveSignInState_def split: option.splits)

lemma signInWithUserPassword_tokens_store:
  assumes v: "assertTokenProviderConfig env (authConfig w) = Inr cfg" "username input \<noteq> []"
      "password input \<noteq> []"
    and r: "fst (retryOnResourceNotFoundException env
      (handleUserPasswordAuthFlow env (username input) (password input) (clientMetadataOf input) cfg)
      (username input) w) = Inr response"
    and a: "AuthenticationResult response = Some result"
  shows "signInStore (snd (signInWithUserPassword env input w)) = None"
proof -
  obtain w1 where req: "retryOnResourceNotFoundException env
      (handleUserPasswordAuthFlow env (username input) (password input) (clientMetadataOf input) cfg)
      (username input) w = (Inr response, w1)"
    using r by (cases "retryOnResourceNotFoundException env
      (handleUserPasswordAuthFlow env (username input) (password input) (clientMetadataOf input) cfg)
      (username input) w") simp
  show ?thesis
    unfolding signInWithUserPassword_tokens [OF v req a] catch_store by (rule handoff_store_empty)
qed

lemma signInWithCustomSRPAuth_tokens_store:
  assumes v: "assertTokenProviderConfig env (authConfig w) = Inr cfg" "username input \<noteq> []"
      "password input \<noteq> []"
    and r: "fst (handleCustomSRPAuthFlow env (username input) (password input) (clientMetadataOf input) cfg (ext w)) = Inr response"
    and a: "AuthenticationResult response = Some result"
  shows "signInStore (snd (signInWithCustomSRPAuth env input w)) = None"
proof -
  obtain w1 where req: "invoke (handleCustomSRPAuthFlow env (username input) (password input)
      (clientMetadataOf input) cfg) w = (Inr response, w1)"
    using r by (simp add: invoke_eq)
  show ?thesis
    unfolding signInWithCustomSRPAuth_tokens [OF v req a] catch_store by (rule handoff_store_empty)
qed

lemma signInWithUserPassword_early_failure:
  assumes "(\<exists>e. assertTokenProviderConfig env (authConfig w) = Inl e) \<or> username input = [] \<or>
      password input = []"
  shows "snd (signInWithUserPassword env input w) = w"
  using assms
  by (auto simp: signInWithUserPassword_def assertValidationError_def Let_def split: sum.splits)

lemma signInWithCustomSRPAuth_early_failure:
  assumes "(\<exists>e. assertTokenProviderConfig env (authConfig w) = Inl e) \<or> username input = [] \<or>
      password input = []"
  shows "snd (signInWithCustomSRPAuth env input w) = w"
  using assms
  by (auto simp: signInWithCustomSRPAuth_def assertValidationError_def Let_def split: sum.splits)

text \<open>
The world after \<open>bob\<close> was sent the challenge: the Active Sign-In State is populated.
\<close>

lemma challengedWorld_eq:
  "challengedWorld =
     mockWorld\<lparr>signInStore :=
         Some \<lparr>signInSession = Some ''session-1'', stateUsername = ''bob'',
               challengeName = Some ''SMS_MFA'',
               signInDetails = \<lparr>loginId = ''bob'', authFlowType = ''USER_PASSWORD_AUTH''\<rparr>\<rparr>,
       trace := [AuthFlowInvoked]\<rparr>"
  by (simp add: challengedWorld_def signInWithUserPassword_def signInWithUserPassword_try_def mock_defs
      helper_defs setActiveSignInState_def getSignInResult_def Let_def)

text \<open>
  Claim C5 as stated fails: a call that fails with a validation error does not touch
  the Active Sign-In State. After \<open>bob\<close> was sent a challenge, a sign-in with an empty
  password fails with \<open>EmptySignInPassword\<close> and the store still holds the attempt.
\<close>

theorem signIn_failure_clears_state_counterexample:
  "signInStore challengedWorld \<noteq> None \<and>
   fst (signInWithUserPassword mockEnv (mockInput ''bob'' []) challengedWorld) =
     Inl (ValidationError EmptySignInPassword) \<and>
   signInStore (snd (signInWithUserPassword mockEnv (mockInput ''bob'' []) challengedWorld)) \<noteq> None \<and>
   fst (signInWithCustomSRPAuth mockEnv (mockInput ''bob'' []) challengedWorld) =
     Inl (ValidationError EmptySignInPassword) \<and>
   signInStore (snd (signInWithCustomSRPAuth mockEnv (mockInput ''bob'' []) challengedWorld)) \<noteq> None"
  by (simp add: challengedWorld_eq signInWithUserPassword_def signInWithCustomSRPAuth_def mock_defs
      helper_defs Let_def)

text \<open>
  Claim C5, amended. A call that passed the configuration assertion and the input
  validation and then fails because the awaited request rejects (a service error),
  or because an awaited call of the token handoff rejects after the request resolved
  with \<open>AuthenticationResult\<close>, leaves the Active Sign-In State empty; a call that
  fails the configuration assertion or the input validation leaves the Active Sign-In
  State as it was before the call. A failure reported by \<open>getSignInResult\<close> is left
  out: the source returns its promise without awaiting it.
\<close>

theorem signIn_failure_clears_state:
  "(assertTokenProviderConfig env (authConfig w) = Inr cfg \<and>
    username input \<noteq> [] \<and> password input \<noteq> [] \<longrightarrow>
      (fst (signInWithUserPassword env input w) = Inl e \<and>
       (fst (retryOnResourceNotFoundException env
      (handleUserPasswordAuthFlow env (username input) (password input) (clientMetadataOf input) cfg)
      (username input) w) = Inl e' \<or>
        fst (retryOnResourceNotFoundException env
      (handleUserPasswordAuthFlow env (username input) (password input) (clientMetadataOf input) cfg)
      (username input) w) = Inr response \<and> AuthenticationResult response = Some result) \<longrightarrow>
         signInStore (snd (signInWithUserPassword env input w)) = None) \<and>
      (fst (signInWithCustomSRPAuth env input w) = Inl e \<and>
       (fst (handleCustomSRPAuthFlow env (username input) (password input) (clientMetadataOf input) cfg (ext w)) = Inl e' \<or>
        fst (handleCustomSRPAuthFlow env (username input) (password input) (clientMetadataOf input) cfg (ext w)) = Inr response \<and> AuthenticationResult response = Some result) \<longrightarrow>
         signInStore (snd (signInWithCustomSRPAuth env input w)) = None)) \<and>
   ((\<exists>e. assertTokenProviderConfig env (authConfig w) = Inl e) \<or> username input = [] \<or>
      password input = [] \<longrightarrow>
      signInStore (snd (signInWithUserPassword env input w)) = signInStore w \<and>
      signInStore (snd (signInWithCustomSRPAuth env input w)) = signInStore w)"
proof (intro conjI impI)
  assume "(\<exists>e. assertTokenProviderConfig env (authConfig w) = Inl e) \<or> username input = [] \<or>
      password input = []"
  then show "signInStore (snd (signInWithUserPassword env input w)) = signInStore w"
    and "signInStore (snd (signInWithCustomSRPAuth env input w)) = signInStore w"
    by (simp_all add: signInWithUserPassword_early_failure signInWithCustomSRPAuth_early_failure)
next
  assume "assertTokenProviderConfig env (authConfig w) = Inr cfg \<and>
    username input \<noteq> [] \<and> password input \<noteq> []"
  then have v: "assertTokenProviderConfig env (authConfig w) = Inr cfg" "username input \<noteq> []"
    "password input \<noteq> []"
    by simp_all
  assume "fst (signInWithUserPassword env input w) = Inl e \<and>
       (fst (retryOnResourceNotFoundException env
      (handleUserPasswordAuthFlow env (username input) (password input) (clientMetadataOf input) cfg)
      (username input) w) = Inl e' \<or>
        fst (retryOnResourceNotFoundException env
      (handleUserPasswordAuthFlow env (username input) (password input) (clientMetadataOf input) cfg)
      (username input) w) = Inr response \<and> AuthenticationResult response = Some result)"
  then show "signInStore (snd (signInWithUserPassword env input w)) = None"
    using signInWithUserPassword_request_rejected [OF v] signInWithUserPassword_tokens_store [OF v]
    by blast
next
  assume "assertTokenProviderConfig env (authConfig w) = Inr cfg \<and>
    username input \<noteq> [] \<and> password input \<noteq> []"
  then have v: "assertTokenProviderConfig env (authConfig w) = Inr cfg" "username input \<noteq> []"
    "password input \<noteq> []"
    by simp_all
  assume "fst (signInWithCustomSRPAuth env input w) = Inl e \<and>
       (fst (handleCustomSRPAuthFlow env (username input) (password input) (clientMetadataOf input) cfg (ext w)) = Inl e' \<or>
        fst (handleCustomSRPAuthFlow env (username input) (password input) (clientMetadataOf input) cfg (ext w)) = Inr response \<and> AuthenticationResult response = Some result)"
  then show "signInStore (snd (signInWithCustomSRPAuth env input w)) = None"
    using signInWithCustomSRPAuth_request_rejected [OF v] signInWithCustomSRPAuth_tokens_store [OF v]
    by blast
qed

text \<open>
  Starting from the populated store: a sign-in that is not authorized empties it, a
  sign-in whose token handoff rejects empties it, and a sign-in with an empty
  password leaves it as it was.
\<close>

theorem signIn_failure_clears_state_witness:
  "assertTokenProviderConfig mockEnv (authConfig challengedWorld) = Inr mockConfig \<and>
   username (mockInput ''zed'' ''Passw0rd!'') \<noteq> [] \<and>
   password (mockInput ''zed'' ''Passw0rd!'') \<noteq> [] \<and>
   username (mockInput ''gina'' ''Passw0rd!'') \<noteq> [] \<and>
   password (mockInput ''gina'' ''Passw0rd!'') \<noteq> [] \<and>
   signInStore challengedWorld \<noteq> None \<and>
   fst (retryOnResourceNotFoundException mockEnv
      (handleUserPasswordAuthFlow mockEnv ''zed'' ''Passw0rd!'' None mockConfig) ''zed'' challengedWorld) =
     Inl (ServiceError ''NotAuthorizedException'' ''Incorrect username or password.'') \<and>
   fst (signInWithUserPassword mockEnv (mockInput ''zed'' ''Passw0rd!'') challengedWorld) =
     Inl (ServiceError ''NotAuthorizedException'' ''Incorrect username or password.'') \<and>
   signInStore (snd (signInWithUserPassword mockEnv (mockInput ''zed'' ''Passw0rd!'') challengedWorld)) = None \<and>
   fst (handleCustomSRPAuthFlow mockEnv ''gina'' ''Passw0rd!'' None mockConfig (ext challengedWorld)) =
     Inr (mockSuccess\<lparr>AuthenticationResult := Some (mockTokens\<lparr>AccessToken := None\<rparr>)\<rparr>) \<and>
   AuthenticationResult (mockSuccess\<lparr>AuthenticationResult := Some (mockTokens\<lparr>AccessToken := None\<rparr>)\<rparr>) =
     Some (mockTokens\<lparr>AccessToken := None\<rparr>) \<and>
   fst (signInWithCustomSRPAuth mockEnv (mockInput ''gina'' ''Passw0rd!'') challengedWorld) =
     Inl (ServiceError ''InvalidTokens'' ''Invalid tokens'') \<and>
   signInStore (snd (signInWithCustomSRPAuth mockEnv (mockInput ''gina'' ''Passw0rd!'') challengedWorld)) = None \<and>
   password (mockInput ''zed'' []) = [] \<and>
   signInStore (snd (signInWithUserPassword mockEnv (mockInput ''zed'' []) challengedWorld)) =
     signInStore challengedWorld \<and>
   signInStore (snd (signInWithCustomSRPAuth mockEnv (mockInput ''zed'' []) challengedWorld)) =
     signInStore challengedWorld"
proof -
  let ?ez = "ServiceError ''NotAuthorizedException'' ''Incorrect username or password.''"
  let ?eg = "ServiceError ''InvalidTokens'' ''Invalid tokens''"
  let ?z = "mockInput ''zed'' ''Passw0rd!''" and ?g = "mockInput ''gina'' ''Passw0rd!''"
  let ?rg = "mockSuccess\<lparr>AuthenticationResult := Some (mockTokens\<lparr>AccessToken := None\<rparr>)\<rparr>"
  have c: "assertTokenProviderConfig mockEnv (authConfig challengedWorld) = Inr mockConfig"
    by (simp add: challengedWorld_eq mock_defs helper_defs)
  have i: "username ?z \<noteq> []" "password ?z \<noteq> []" "username ?g \<noteq> []" "password ?g \<noteq> []"
    "password (mockInput ''zed'' []) = []"
    by (simp_all add: mockInput_def)
  have j: "username ?z = ''zed''" "password ?z = ''Passw0rd!''" "clientMetadataOf ?z = None"
    "username ?g = ''gina''" "password ?g = ''Passw0rd!''" "clientMetadataOf ?g = None"
    by (simp_all add: mockInput_def clientMetadataOf_def)
  have n: "signInStore challengedWorld \<noteq> None"
    by (simp add: challengedWorld_eq)
  have rz: "fst (retryOnResourceNotFoundException mockEnv
      (handleUserPasswordAuthFlow mockEnv ''zed'' ''Passw0rd!'' None mockConfig) ''zed'' challengedWorld) =
      Inl ?ez"
    by (simp add: mockEnv_def mockFlow_def helper_defs)
  have uz: "fst (signInWithUserPassword mockEnv ?z challengedWorld) = Inl ?ez"
    by (simp add: challengedWorld_eq signInWithUserPassword_def signInWithUserPassword_try_def mock_defs
        helper_defs handoff_defs Let_def)
  have rg: "fst (handleCustomSRPAuthFlow mockEnv ''gina'' ''Passw0rd!'' None mockConfig
      (ext challengedWorld)) = Inr ?rg"
    by (simp add: mockEnv_def mockFlow_def)
  have ag: "AuthenticationResult ?rg = Some (mockTokens\<lparr>AccessToken := None\<rparr>)"
    by simp
  have sg: "fst (signInWithCustomSRPAuth mockEnv ?g challengedWorld) = Inl ?eg"
    by (simp add: challengedWorld_eq signInWithCustomSRPAuth_def signInWithCustomSRPAuth_try_def mock_defs
        helper_defs handoff_defs Let_def)
  from signIn_failure_clears_state [where env = mockEnv and w = challengedWorld and cfg = mockConfig
      and input = ?z and e = ?ez and e' = ?ez, unfolded j] c i rz uz
  have a: "signInStore (snd (signInWithUserPassword mockEnv ?z challengedWorld)) = None"
    by blast
  from signIn_failure_clears_state [where env = mockEnv and w = challengedWorld and cfg = mockConfig
      and input = ?g and e = ?eg and response = ?rg and result = "mockTokens\<lparr>AccessToken := None\<rparr>",
      unfolded j] c i rg ag sg
  have b: "signInStore (snd (signInWithCustomSRPAuth mockEnv ?g challengedWorld)) = None"
    by blast
  from signIn_failure_clears_state [where env = mockEnv and w = challengedWorld and cfg = mockConfig
      and input = "mockInput ''zed'' []"] i
  have d: "signInStore (snd (signInWithUserPassword mockEnv (mockInput ''zed'' []) challengedWorld)) =
     signInStore challengedWorld \<and>
   signInStore (snd (signInWithCustomSRPAuth mockEnv (mockInput ''zed'' []) challengedWorld)) =
     signInStore challengedWorld"
    by blast
  from c i n rz uz rg ag sg a b d show ?thesis by blast
qed

text \<open>
  The failure that the amended claim leaves out, on the scripted service: the error
  that \<open>getSignInResult\<close> reports for the challenge of \<open>erin\<close> is the error of the
  call, and the Active Sign-In State is still populated afterwards.
\<close>

lemma signIn_protocol_violation_on_mock:
  "fst (signInWithUserPassword mockEnv (mockInput ''erin'' ''Passw0rd!'') mockWorld) =
     Inl (SignInProtocolError (Some ''UNSUPPORTED'')) \<and>
   signInStore (snd (signInWithUserPassword mockEnv (mockInput ''erin'' ''Passw0rd!'') mockWorld)) \<noteq> None \<and>
   fst (signInWithCustomSRPAuth mockEnv (mockInput ''erin'' ''Passw0rd!'') mockWorld) =
     Inl (SignInProtocolError (Some ''UNSUPPORTED'')) \<and>
   signInStore (snd (signInWithCustomSRPAuth mockEnv (mockInput ''erin'' ''Passw0rd!'') mockWorld)) \<noteq> None"
  by (simp add: signInWithUserPassword_def signInWithUserPassword_try_def signInWithCustomSRPAuth_def
      signInWithCustomSRPAuth_try_def mock_defs helper_defs handoff_defs getSignInResult_def Let_def)

section \<open>Classification of service errors\<close>







section \<open>Unrecognised challenges\<close>

lemma getSignInResult_unrecognized:
  assumes "challengeNextStep env c = None"
  shows "getSignInResult env (Some c) params = Inl (SignInProtocolError (Some c))"
  using assms by (simp add: getSignInResult_def)

text \<open>
  Claim C7 as stated fails: \<open>AuthenticationResult\<close> is looked at first, so a response
  that carries tokens together with a challenge outside the mapping makes both entry
  points return the \<open>DONE\<close> result, and the challenge is not looked at.
\<close>

theorem signIn_unrecognized_challenge_counterexample:
  "fst (handleUserPasswordAuthFlow mockEnv ''frank'' ''Passw0rd!'' None mockConfig (ext mockWorld)) =
     Inr ((mockChallenge ''UNSUPPORTED'')\<lparr>AuthenticationResult := Some mockTokens\<rparr>) \<and>
   ChallengeName ((mockChallenge ''UNSUPPORTED'')\<lparr>AuthenticationResult := Some mockTokens\<rparr>) =
     Some ''UNSUPPORTED'' \<and>
   challengeNextStep mockEnv ''UNSUPPORTED'' = None \<and>
   fst (signInWithUserPassword mockEnv (mockInput ''frank'' ''Passw0rd!'') mockWorld) =
     Inr \<lparr>isSignedIn = True, nextStep = \<lparr>signInStep = ''DONE'', exposedParameters = []\<rparr>\<rparr> \<and>
   fst (signInWithCustomSRPAuth mockEnv (mockInput ''frank'' ''Passw0rd!'') mockWorld) =
     Inr \<lparr>isSignedIn = True, nextStep = \<lparr>signInStep = ''DONE'', exposedParameters = []\<rparr>\<rparr>"
  by (simp add: signInWithUserPassword_def signInWithUserPassword_try_def signInWithCustomSRPAuth_def
      signInWithCustomSRPAuth_try_def mock_defs helper_defs handoff_defs Let_def)

text \<open>
  Claim C7, amended. When the initial request resolves with a response that carries no
  \<open>AuthenticationResult\<close> and a challenge identifier outside the static mapping, the
  call throws: it returns no result. The error thrown is the reported protocol error
  naming the challenge whenever \<open>assertServiceError\<close> accepts that error.
\<close>

theorem signIn_unrecognized_challenge_fatal:
  "(assertTokenProviderConfig env (authConfig w) = Inr cfg \<and>
    username input \<noteq> [] \<and> password input \<noteq> [] \<and>
    retryOnResourceNotFoundException env
      (handleUserPasswordAuthFlow env (username input) (password input) (clientMetadataOf input) cfg)
      (username input) w = (Inr response, w1) \<and>
    AuthenticationResult response = None \<and> ChallengeName response = Some c \<and>
    challengeNextStep env c = None \<longrightarrow>
      (\<exists>e. fst (signInWithUserPassword env input w) = Inl e) \<and>
      (assertServiceError env (SignInProtocolError (Some c)) = None \<longrightarrow>
         fst (signInWithUserPassword env input w) = Inl (SignInProtocolError (Some c)))) \<and>
   (assertTokenProviderConfig env (authConfig w) = Inr cfg \<and>
    username input \<noteq> [] \<and> password input \<noteq> [] \<and>
    handleCustomSRPAuthFlow env (username input) (password input) (clientMetadataOf input) cfg (ext w) =
      (Inr response, x1) \<and>
    AuthenticationResult response = None \<and> ChallengeName response = Some c \<and>
    challengeNextStep env c = None \<longrightarrow>
      (\<exists>e. fst (signInWithCustomSRPAuth env input w) = Inl e) \<and>
      (assertServiceError env (SignInProtocolError (Some c)) = None \<longrightarrow>
         fst (signInWithCustomSRPAuth env input w) = Inl (SignInProtocolError (Some c))))"
proof (intro conjI impI)
  assume h: "assertTokenProviderConfig env (authConfig w) = Inr cfg \<and>
    username input \<noteq> [] \<and> password input \<noteq> [] \<and>
    retryOnResourceNotFoundException env
      (handleUserPasswordAuthFlow env (username input) (password input) (clientMetadataOf input) cfg)
      (username input) w = (Inr response, w1) \<and>
    AuthenticationResult response = None \<and> ChallengeName response = Some c \<and>
    challengeNextStep env c = None"
  then have v: "assertTokenProviderConfig env (authConfig w) = Inr cfg" "username input \<noteq> []"
    "password input \<noteq> []"
    and req: "retryOnResourceNotFoundException env
      (handleUserPasswordAuthFlow env (username input) (password input) (clientMetadataOf input) cfg)
      (username input) w = (Inr response, w1)"
    and res: "AuthenticationResult response = None" and ch: "ChallengeName response = Some c"
    and st: "challengeNextStep env c = None"
    by simp_all
  have k: "fst (signInWithUserPassword env input w) = Inl (SignInProtocolError (Some c))"
    by (simp add: signInWithUserPassword_valid [OF v] signInWithUserPassword_try_challenge [OF req res] ch
        getSignInResult_unrecognized [OF st])
  then show "\<exists>e. fst (signInWithUserPassword env input w) = Inl e"
    by blast
  show "fst (signInWithUserPassword env input w) = Inl (SignInProtocolError (Some c))"
    by (rule k)
next
  assume h: "assertTokenProviderConfig env (authConfig w) = Inr cfg \<and>
    username input \<noteq> [] \<and> password input \<noteq> [] \<and>
    handleCustomSRPAuthFlow env (username input) (password input) (clientMetadataOf input) cfg (ext w) =
      (Inr response, x1) \<and>
    AuthenticationResult response = None \<and> ChallengeName response = Some c \<and>
    challengeNextStep env c = None"
  then have v: "assertTokenProviderConfig env (authConfig w) = Inr cfg" "username input \<noteq> []"
    "password input \<noteq> []"
    and req: "invoke (handleCustomSRPAuthFlow env (username input) (password input) (clientMetadataOf input) cfg) w
      = (Inr response, w\<lparr>trace := trace w @ [AuthFlowInvoked], ext := x1\<rparr>)"
    and res: "AuthenticationResult response = None" and ch: "ChallengeName response = Some c"
    and st: "challengeNextStep env c = None"
    by (simp_all add: invoke_eq)
  have k: "fst (signInWithCustomSRPAuth env input w) = Inl (SignInProtocolError (Some c))"
    by (simp add: signInWithCustomSRPAuth_valid [OF v] signInWithCustomSRPAuth_try_challenge [OF req res] ch
        getSignInResult_unrecognized [OF st])
  then show "\<exists>e. fst (signInWithCustomSRPAuth env input w) = Inl e"
    by blast
  show "fst (signInWithCustomSRPAuth env input w) = Inl (SignInProtocolError (Some c))"
    by (rule k)
qed


text \<open>
The scripted service sends \<open>erin\<close> a challenge outside the mapping.
\<close>

theorem signIn_unrecognized_challenge_fatal_witness:
  "assertTokenProviderConfig mockEnv (authConfig mockWorld) = Inr mockConfig \<and>
   username (mockInput ''erin'' ''Passw0rd!'') \<noteq> [] \<and> password (mockInput ''erin'' ''Passw0rd!'') \<noteq> [] \<and>
   fst (retryOnResourceNotFoundException mockEnv
      (handleUserPasswordAuthFlow mockEnv ''erin'' ''Passw0rd!'' None mockConfig) ''erin'' mockWorld) =
     Inr (mockChallenge ''UNSUPPORTED'') \<and>
   handleCustomSRPAuthFlow mockEnv ''erin'' ''Passw0rd!'' None mockConfig (ext mockWorld) =
     (Inr (mockChallenge ''UNSUPPORTED''), True) \<and>
   AuthenticationResult (mockChallenge ''UNSUPPORTED'') = None \<and>
   ChallengeName (mockChallenge ''UNSUPPORTED'') = Some ''UNSUPPORTED'' \<and>
   challengeNextStep mockEnv ''UNSUPPORTED'' = None \<and>
   assertServiceError mockEnv (SignInProtocolError (Some ''UNSUPPORTED'')) = None \<and>
   fst (signInWithUserPassword mockEnv (mockInput ''erin'' ''Passw0rd!'') mockWorld) =
     Inl (SignInProtocolError (Some ''UNSUPPORTED'')) \<and>
   fst (signInWithCustomSRPAuth mockEnv (mockInput ''erin'' ''Passw0rd!'') mockWorld) =
     Inl (SignInProtocolError (Some ''UNSUPPORTED''))"
proof -
  let ?i = "mockInput ''erin'' ''Passw0rd!''"
  let ?w1 = "snd (retryOnResourceNotFoundException mockEnv
      (handleUserPasswordAuthFlow mockEnv ''erin'' ''Passw0rd!'' None mockConfig) ''erin'' mockWorld)"
  have i: "username ?i = ''erin''" "password ?i = ''Passw0rd!''" "clientMetadataOf ?i = None"
    by (simp_all add: mockInput_def clientMetadataOf_def)
  have c: "assertTokenProviderConfig mockEnv (authConfig mockWorld) = Inr mockConfig"
    by (simp add: mock_defs helper_defs)
  have r1: "fst (retryOnResourceNotFoundException mockEnv
      (handleUserPasswordAuthFlow mockEnv ''erin'' ''Passw0rd!'' None mockConfig) ''erin'' mockWorld) =
      Inr (mockChallenge ''UNSUPPORTED'')"
    by (simp add: mockEnv_def mockFlow_def helper_defs)
  then have r: "retryOnResourceNotFoundException mockEnv
      (handleUserPasswordAuthFlow mockEnv ''erin'' ''Passw0rd!'' None mockConfig) ''erin'' mockWorld =
      (Inr (mockChallenge ''UNSUPPORTED''), ?w1)"
    by (simp add: prod_eq_iff)
  have s: "handleCustomSRPAuthFlow mockEnv ''erin'' ''Passw0rd!'' None mockConfig (ext mockWorld) =
      (Inr (mockChallenge ''UNSUPPORTED''), True)"
    by (simp add: mockEnv_def mockFlow_def mockWorld_def)
  have a: "AuthenticationResult (mockChallenge ''UNSUPPORTED'') = None"
    "ChallengeName (mockChallenge ''UNSUPPORTED'') = Some ''UNSUPPORTED''"
    by (simp_all add: mockChallenge_def)
  have m: "challengeNextStep mockEnv ''UNSUPPORTED'' = None"
    "assertServiceError mockEnv (SignInProtocolError (Some ''UNSUPPORTED'')) = None"
    by (simp_all add: mockEnv_def)
  from signIn_unrecognized_challenge_fatal [where env = mockEnv and w = mockWorld and cfg = mockConfig
      and input = ?i and response = "mockChallenge ''UNSUPPORTED''" and ?w1.0 = ?w1 and ?x1.0 = True
      and c = "''UNSUPPORTED''", unfolded i] c r s a m
  have "fst (signInWithUserPassword mockEnv ?i mockWorld) = Inl (SignInProtocolError (Some ''UNSUPPORTED'')) \<and>
    fst (signInWithCustomSRPAuth mockEnv ?i mockWorld) = Inl (SignInProtocolError (Some ''UNSUPPORTED''))"
    by blast
  with c i r1 s a m show ?thesis by simp
qed

section \<open>resetPassword validates nothing\<close>

lemma resetPassword_eq:
  "\<exists>input. Username input = requestUsername request \<and>
     resetPassword env request w =
       (case resetPasswordClient env input (ext w) of
          (r, x) \<Rightarrow>
            (case r of
               Inl e \<Rightarrow> Inl e
             | Inr res \<Rightarrow>
                 Inr \<lparr>isPasswordReset = False,
                      resetNextStep =
                        \<lparr>resetPasswordStep = CONFIRM_RESET_PASSWORD_WITH_CODE,
                         codeDeliveryDetails =
                           \<lparr>destination = (case CodeDeliveryDetails res of None \<Rightarrow> None | Some d \<Rightarrow> Destination d),
                            deliveryMedium = (case CodeDeliveryDetails res of None \<Rightarrow> None | Some d \<Rightarrow> DeliveryMedium d),
                            attributeName = (case CodeDeliveryDetails res of None \<Rightarrow> None | Some d \<Rightarrow> AttributeName d)\<rparr>\<rparr>\<rparr>,
             w\<lparr>trace := trace w @ [ResetPasswordClientCalled input], ext := x\<rparr>))"
  by (rule exI [where x = "\<lparr>Username = requestUsername request,
        ClientMetadata =
          (case (case requestOptions request of
                   None \<Rightarrow> None
                 | Some opts \<Rightarrow>
                     (case serviceOptions opts of None \<Rightarrow> None | Some so \<Rightarrow> serviceClientMetadata so)) of
             Some m \<Rightarrow> Some m | None \<Rightarrow> configClientMetadata w)\<rparr>"])
    (simp add: resetPassword_def Let_def split: prod.splits sum.splits)

text \<open>
  Claim C10. \<open>resetPassword\<close> validates nothing locally: for every request, an empty
  username included, it calls \<open>resetPasswordClient\<close> exactly once, with the username of
  the request; when the client rejects, its error is the error of the call; when the
  client resolves, the call returns \<open>isPasswordReset: false\<close> with
  \<open>resetPasswordStep\<close> equal to \<open>CONFIRM_RESET_PASSWORD_WITH_CODE\<close>; and no call
  returns \<open>isPasswordReset: true\<close>.
\<close>

theorem resetPassword_no_validation:
  "\<exists>input. Username input = requestUsername request \<and>
     trace (snd (resetPassword env request w)) = trace w @ [ResetPasswordClientCalled input] \<and>
     (\<forall>e. fst (resetPasswordClient env input (ext w)) = Inl e \<longrightarrow>
          fst (resetPassword env request w) = Inl e) \<and>
     (\<forall>res. fst (resetPasswordClient env input (ext w)) = Inr res \<longrightarrow>
          (\<exists>out. fst (resetPassword env request w) = Inr out \<and> isPasswordReset out = False \<and>
             resetPasswordStep (resetNextStep out) = CONFIRM_RESET_PASSWORD_WITH_CODE)) \<and>
     (\<forall>out. fst (resetPassword env request w) = Inr out \<longrightarrow> isPasswordReset out = False)"
proof -
  obtain input where u: "Username input = requestUsername request"
    and eq: "resetPassword env request w =
       (case resetPasswordClient env input (ext w) of
          (r, x) \<Rightarrow>
            (case r of
               Inl e \<Rightarrow> Inl e
             | Inr res \<Rightarrow>
                 Inr \<lparr>isPasswordReset = False,
                      resetNextStep =
                        \<lparr>resetPasswordStep = CONFIRM_RESET_PASSWORD_WITH_CODE,
                         codeDeliveryDetails =
                           \<lparr>destination = (case CodeDeliveryDetails res of None \<Rightarrow> None | Some d \<Rightarrow> Destination d),
                            deliveryMedium = (case CodeDeliveryDetails res of None \<Rightarrow> None | Some d \<Rightarrow> DeliveryMedium d),
                            attributeName = (case CodeDeliveryDetails res of None \<Rightarrow> None | Some d \<Rightarrow> AttributeName d)\<rparr>\<rparr>\<rparr>,
             w\<lparr>trace := trace w @ [ResetPasswordClientCalled input], ext := x\<rparr>))"
    using resetPassword_eq [of request env w] by blast
  obtain r x where c: "resetPasswordClient env input (ext w) = (r, x)"
    by (cases "resetPasswordClient env input (ext w)")
  have "trace (snd (resetPassword env request w)) = trace w @ [ResetPasswordClientCalled input]"
    by (simp add: eq c)
  moreover have "\<forall>e. fst (resetPasswordClient env input (ext w)) = Inl e \<longrightarrow>
          fst (resetPassword env request w) = Inl e"
    by (simp add: eq c)
  moreover have "\<forall>res. fst (resetPasswordClient env input (ext w)) = Inr res \<longrightarrow>
          (\<exists>out. fst (resetPassword env request w) = Inr out \<and> isPasswordReset out = False \<and>
             resetPasswordStep (resetNextStep out) = CONFIRM_RESET_PASSWORD_WITH_CODE)"
    by (simp add: eq c)
  moreover have "\<forall>out. fst (resetPassword env request w) = Inr out \<longrightarrow> isPasswordReset out = False"
    by (cases r) (auto simp: eq c)
  ultimately show ?thesis using u by blast
qed


definition rejectingEnv :: "bool env" where
  "rejectingEnv =
     mockEnv\<lparr>resetPasswordClient :=
       (\<lambda>input x. (Inl (ServiceError ''UserNotFoundException'' ''Username not found.''), x))\<rparr>"

text \<open>
  An empty username on a client that resolves, and on a client that rejects.
\<close>

theorem resetPassword_no_validation_witness:
  "requestUsername \<lparr>requestUsername = [], requestOptions = None\<rparr> = [] \<and>
   (\<forall>input. fst (resetPasswordClient mockEnv input (ext mockWorld)) = Inr mockDelivery) \<and>
   (\<forall>input. fst (resetPasswordClient rejectingEnv input (ext mockWorld)) =
      Inl (ServiceError ''UserNotFoundException'' ''Username not found.'')) \<and>
   (\<exists>out. fst (resetPassword mockEnv \<lparr>requestUsername = [], requestOptions = None\<rparr> mockWorld) = Inr out \<and>
      isPasswordReset out = False \<and>
      resetPasswordStep (resetNextStep out) = CONFIRM_RESET_PASSWORD_WITH_CODE) \<and>
   (\<exists>input. Username input = [] \<and>
      trace (snd (resetPassword mockEnv \<lparr>requestUsername = [], requestOptions = None\<rparr> mockWorld)) =
        [ResetPasswordClientCalled input]) \<and>
   fst (resetPassword rejectingEnv \<lparr>requestUsername = [], requestOptions = None\<rparr> mockWorld) =
     Inl (ServiceError ''UserNotFoundException'' ''Username not found.'')"
proof -
  let ?q = "\<lparr>requestUsername = [], requestOptions = None\<rparr>"
  let ?e = "ServiceError ''UserNotFoundException'' ''Username not found.''"
  have q: "requestUsername ?q = []" by simp
  have m: "\<forall>input. fst (resetPasswordClient mockEnv input (ext mockWorld)) = Inr mockDelivery"
    by (simp add: mockEnv_def mockDelivery_def)
  have j: "\<forall>input. fst (resetPasswordClient rejectingEnv input (ext mockWorld)) = Inl ?e"
    by (simp add: rejectingEnv_def)
  have t: "trace mockWorld = []" by (simp add: mockWorld_def)
  from resetPassword_no_validation [of ?q mockEnv mockWorld] m q t
  have a: "(\<exists>out. fst (resetPassword mockEnv ?q mockWorld) = Inr out \<and> isPasswordReset out = False \<and>
      resetPasswordStep (resetNextStep out) = CONFIRM_RESET_PASSWORD_WITH_CODE) \<and>
    (\<exists>input. Username input = [] \<and>
      trace (snd (resetPassword mockEnv ?q mockWorld)) = [ResetPasswordClientCalled input])"
    by (metis append_Nil)
  from resetPassword_no_validation [of ?q rejectingEnv mockWorld] j
  have b: "fst (resetPassword rejectingEnv ?q mockWorld) = Inl ?e"
    by blast
  from q m j a b show ?thesis by blast
qed

end
